theory Spec2Isabelle
  imports Main
begin

section \<open>Values, exceptions and the operational log\<close>

text \<open>
  A cell of a table or of a DataFrame: SQL \<open>NULL\<close> and Python \<open>None\<close> are the one value
  \<open>Null\<close>; every other cell is a text or an integer.
\<close>

datatype val = Null | Str string | Num int

text \<open>
  The exception classes the code meets. \<open>except SQLAlchemyError\<close> (main.py:79) catches
  the one class, \<open>except Exception\<close> catches every one of them.
\<close>

datatype exn =
    KeyError string
  | NameError string
  | TypeError string
  | ValueError string
  | SQLAlchemyError string
  | OtherError string

fun is_sqlalchemy_error :: "exn \<Rightarrow> bool" where
  "is_sqlalchemy_error (SQLAlchemyError m) = True"
| "is_sqlalchemy_error e = False"

text \<open>The lines main.py writes with \<open>logging.info\<close> and \<open>logging.error\<close>, in order.\<close>

datatype log_entry =
    StartOfJob
  | ErrorInRemoveTags exn
  | ErrorInDownload exn
  | NoNewDataToProcess
  | ErrorProcessingColumn string exn
  | InsertionCompleted
  | SQLAlchemyErrorLogged exn
  | UnexpectedErrorLogged exn
  | ErrorInMain exn
  | ProcessedRowsCount int
  | RowsFailedToProcess "string list"
  | EndOfJob

section \<open>The sanitizer: \<open>remove_tags\<close> (main.py:13-25)\<close>

text \<open>
  Lines 17-22 hand the markup to an HTML library: parse, drop the \<open>style\<close> and \<open>script\<close>
  elements, join the stripped strings with single spaces. The library is outside the
  repository, so it is a parameter \<open>bs\<close>: what that pipeline returns on a value, or the
  exception it raises.
\<close>

type_synonym parser = "val \<Rightarrow> exn + string"

text \<open>The body of the \<open>try\<close> (lines 15-22).\<close>

definition remove_tags_body :: "parser \<Rightarrow> val \<Rightarrow> exn + val" where
  "remove_tags_body bs html =
     (if html = Null then Inr (Str [])
      else (case bs html of Inl e \<Rightarrow> Inl e | Inr s \<Rightarrow> Inr (Str s)))"

text \<open>
  The whole function: \<open>except Exception\<close> (lines 23-25) logs the error and returns the
  argument. The result is a sum so that "raises" would be a value \<open>Inl\<close>; the second
  component is what the call logs.
\<close>

definition remove_tags :: "parser \<Rightarrow> val \<Rightarrow> (exn + val) \<times> log_entry list" where
  "remove_tags bs html =
     (case remove_tags_body bs html of
        Inr v \<Rightarrow> (Inr v, [])
      | Inl e \<Rightarrow> (Inr html, [ErrorInRemoveTags e]))"

text \<open>
  A small stand-in for the HTML library, used in the worked examples only (every theorem
  below holds for any parser): it drops what stands between \<open><\<close> and \<open>>\<close> and refuses a
  value that is not a text.
\<close>

fun strip_markup :: "bool \<Rightarrow> string \<Rightarrow> string" where
  "strip_markup inside [] = []"
| "strip_markup inside (c # cs) =
     (if c = CHR ''<'' then strip_markup True cs
      else if c = CHR ''>'' then strip_markup False cs
      else if inside then strip_markup inside cs
      else c # strip_markup inside cs)"

definition sample_parser :: parser where
  "sample_parser v =
     (case v of
        Str s \<Rightarrow> Inr (strip_markup False s)
      | Null \<Rightarrow> Inl (TypeError ''markup is None'')
      | Num n \<Rightarrow> Inl (TypeError ''markup is not a string''))"

section \<open>Tables, the database and DataFrames\<close>

text \<open>
  A live table: its column names in order, the columns of its primary key (empty when it
  has none) and its rows, each a list of cells in column order. Column types are not
  modelled. A database maps a table name to the table, \<open>None\<close> when there is no such
  table. A DataFrame is the columns and rows read by one query.
\<close>

record table =
  t_columns :: "string list"
  t_pkey :: "string list"
  t_rows :: "val list list"

type_synonym database = "string \<rightharpoonup> table"

record dataframe =
  df_columns :: "string list"
  df_rows :: "val list list"

fun index_of :: "'a \<Rightarrow> 'a list \<Rightarrow> nat option" where
  "index_of x [] = None"
| "index_of x (y # ys) = (if x = y then Some 0 else map_option Suc (index_of x ys))"

text \<open>A cell by position, and by column name; a cell that is not there reads as \<open>Null\<close>.\<close>

definition cell :: "val list \<Rightarrow> nat \<Rightarrow> val" where
  "cell r i = (if i < length r then r ! i else Null)"

definition field :: "string list \<Rightarrow> val list \<Rightarrow> string \<Rightarrow> val" where
  "field cols r c = (case index_of c cols of None \<Rightarrow> Null | Some i \<Rightarrow> cell r i)"

text \<open>
  SQL's \<open>=\<close> inside a \<open>WHERE\<close>: the row passes only when the comparison is true, and a
  comparison with \<open>NULL\<close> is never true.
\<close>

definition sql_eq :: "val \<Rightarrow> val \<Rightarrow> bool" where
  "sql_eq a b \<longleftrightarrow> a \<noteq> Null \<and> b \<noteq> Null \<and> a = b"

section \<open>The selector: \<open>download_table_to_df\<close> (main.py:27-43)\<close>

text \<open>
  The query of lines 29-36,
  \<^verbatim>\<open>SELECT * FROM raw t1 WHERE NOT EXISTS (SELECT 1 FROM processed t2 WHERE t1.id = t2.id) LIMIT n\<close>,
  run on the database. It fails when a table or its \<open>id\<close> column does not exist and when
  the limit is negative. Without \<open>ORDER BY\<close> the rows come in the table's stored order.
\<close>

definition select_unprocessed :: "database \<Rightarrow> string \<Rightarrow> string \<Rightarrow> int \<Rightarrow> exn + dataframe" where
  "select_unprocessed db raw_table_name processed_table_name limit =
     (case db raw_table_name of
        None \<Rightarrow> Inl (SQLAlchemyError ''relation does not exist'')
      | Some t1 \<Rightarrow>
          (case db processed_table_name of
             None \<Rightarrow> Inl (SQLAlchemyError ''relation does not exist'')
           | Some t2 \<Rightarrow>
               if \<not> (''id'' \<in> set (t_columns t1) \<and> ''id'' \<in> set (t_columns t2))
               then Inl (SQLAlchemyError ''column id does not exist'')
               else if limit < 0 then Inl (SQLAlchemyError ''LIMIT must not be negative'')
               else Inr \<lparr>df_columns = t_columns t1,
                         df_rows = take (nat limit)
                           (filter (\<lambda>r1. \<not> list_ex (\<lambda>r2. sql_eq (field (t_columns t1) r1 ''id'')
                                                                (field (t_columns t2) r2 ''id''))
                                                 (t_rows t2))
                                   (t_rows t1))\<rparr>))"

text \<open>\<open>pd.DataFrame()\<close>: no column, no row.\<close>

definition empty_dataframe :: dataframe where
  "empty_dataframe = \<lparr>df_columns = [], df_rows = []\<rparr>"

text \<open>
  The function: the \<open>try\<close> returns what the query read; \<open>except Exception\<close> (lines 41-43)
  logs the error and returns \<open>pd.DataFrame()\<close>. The DataFrame is all the caller receives.
\<close>

definition download_table_to_df ::
  "database \<Rightarrow> string \<Rightarrow> string \<Rightarrow> int \<Rightarrow> dataframe \<times> log_entry list" where
  "download_table_to_df db raw_table_name processed_table_name limit =
     (case select_unprocessed db raw_table_name processed_table_name limit of
        Inr df \<Rightarrow> (df, [])
      | Inl e \<Rightarrow> (empty_dataframe, [ErrorInDownload e]))"

section \<open>Inserting rows\<close>

text \<open>
  One \<open>INSERT\<close> of the named values into a live table. A named column the table does not
  have is an error; a column that is not named takes \<open>NULL\<close>; a \<open>NULL\<close> in a primary-key
  column is an error; a row whose primary key is already there is an error for a plain
  insert and leaves the table as it is under \<open>ON CONFLICT DO NOTHING\<close>.
\<close>

datatype on_conflict = Fail | DoNothing

definition pk_of :: "table \<Rightarrow> val list \<Rightarrow> val list" where
  "pk_of t r = map (field (t_columns t) r) (t_pkey t)"

definition stored_row :: "table \<Rightarrow> (string \<times> val) list \<Rightarrow> val list" where
  "stored_row t vs = map (\<lambda>c. case map_of vs c of None \<Rightarrow> Null | Some v \<Rightarrow> v) (t_columns t)"

definition insert_row :: "on_conflict \<Rightarrow> table \<Rightarrow> (string \<times> val) list \<Rightarrow> exn + table" where
  "insert_row policy t vs =
     (if \<not> set (map fst vs) \<subseteq> set (t_columns t)
      then Inl (SQLAlchemyError ''column does not exist'')
      else if Null \<in> set (pk_of t (stored_row t vs))
      then Inl (SQLAlchemyError ''null value in a primary key column'')
      else if t_pkey t \<noteq> [] \<and> list_ex (\<lambda>r. pk_of t r = pk_of t (stored_row t vs)) (t_rows t)
      then (case policy of
              DoNothing \<Rightarrow> Inr t
            | Fail \<Rightarrow> Inl (SQLAlchemyError ''duplicate key value''))
      else Inr (t\<lparr>t_rows := t_rows t @ [stored_row t vs]\<rparr>))"

section \<open>DataFrame operations used by the batch loop\<close>


text \<open>\<open>df.empty\<close>: an axis of length 0.\<close>

definition df_empty :: "dataframe \<Rightarrow> bool" where
  "df_empty df \<longleftrightarrow> df_columns df = [] \<or> df_rows df = []"

text \<open>\<open>df[column]\<close>: the column's cells, or \<open>KeyError\<close>.\<close>

definition getitem :: "dataframe \<Rightarrow> string \<Rightarrow> exn + val list" where
  "getitem df column =
     (case index_of column (df_columns df) of
        None \<Rightarrow> Inl (KeyError column)
      | Some i \<Rightarrow> Inr (map (\<lambda>r. cell r i) (df_rows df)))"

text \<open>\<open>df[column] = series\<close>: the column replaced, or appended as a new last column.\<close>

definition setitem :: "dataframe \<Rightarrow> string \<Rightarrow> val list \<Rightarrow> dataframe" where
  "setitem df column series =
     (case index_of column (df_columns df) of
        Some i \<Rightarrow> df\<lparr>df_rows := map (\<lambda>(r, v). r[i := v]) (zip (df_rows df) series)\<rparr>
      | None \<Rightarrow> \<lparr>df_columns = df_columns df @ [column],
                 df_rows = map (\<lambda>(r, v). r @ [v]) (zip (df_rows df) series)\<rparr>)"

text \<open>\<open>series.apply(f)\<close>: \<open>f\<close> on each cell in order; an exception of \<open>f\<close> ends it.\<close>

fun apply_series ::
  "(val \<Rightarrow> (exn + val) \<times> log_entry list) \<Rightarrow> val list \<Rightarrow> (exn + val list) \<times> log_entry list" where
  "apply_series f [] = (Inr [], [])"
| "apply_series f (v # vs) =
     (case f v of
        (Inl e, l) \<Rightarrow> (Inl e, l)
      | (Inr w, l) \<Rightarrow>
          (case apply_series f vs of
             (Inl e, l') \<Rightarrow> (Inl e, l @ l')
           | (Inr ws, l') \<Rightarrow> (Inr (w # ws), l @ l')))"

text \<open>
  \<open>df.to_sql(name, engine, index=False, if_exists='append', ...)\<close> (main.py:71-76): the
  rows of the DataFrame inserted by plain inserts in one transaction, so a failure leaves
  the database as it was; a table that does not exist is created from the DataFrame.
\<close>

definition df_records :: "dataframe \<Rightarrow> (string \<times> val) list list" where
  "df_records df =
     map (\<lambda>r. map (\<lambda>c. (c, field (df_columns df) r c)) (df_columns df)) (df_rows df)"

fun insert_rows :: "table \<Rightarrow> (string \<times> val) list list \<Rightarrow> exn + table" where
  "insert_rows t [] = Inr t"
| "insert_rows t (vs # rest) =
     (case insert_row Fail t vs of
        Inl e \<Rightarrow> Inl e
      | Inr t' \<Rightarrow> insert_rows t' rest)"

definition to_sql :: "database \<Rightarrow> string \<Rightarrow> dataframe \<Rightarrow> exn + database" where
  "to_sql db name df =
     (case insert_rows
             (case db name of
                None \<Rightarrow> \<lparr>t_columns = df_columns df, t_pkey = [], t_rows = []\<rparr>
              | Some t \<Rightarrow> t)
             (df_records df) of
        Inl e \<Rightarrow> Inl e
      | Inr t' \<Rightarrow> Inr (db(name \<mapsto> t')))"

section \<open>The batch loop (main.py:45-93)\<close>

definition RAW_DATA_TABLE_NAME :: string where
  "RAW_DATA_TABLE_NAME = ''raw_documents''"

definition PROCESSED_DATA_TABLE_NAME :: string where
  "PROCESSED_DATA_TABLE_NAME = ''processed_documents''"

definition columns_to_clean :: "string list" where
  "columns_to_clean = [''abstract_de'', ''abstract_it'', ''abstract_fr'', ''content'']"

text \<open>
  One turn of \<open>for column in columns_to_clean\<close> (lines 63-69) on the DataFrame, the list
  \<open>error_columns\<close> and the log: the column is replaced by its sanitized cells, or, when
  \<open>df[column]\<close> or the \<open>apply\<close> raises, the exception is logged and the column's name is
  appended to \<open>error_columns\<close>.
\<close>

fun clean_column ::
  "parser \<Rightarrow> string \<Rightarrow> dataframe \<times> string list \<times> log_entry list
     \<Rightarrow> dataframe \<times> string list \<times> log_entry list" where
  "clean_column bs column (df, errs, lg) =
     (case getitem df column of
        Inl e \<Rightarrow> (df, errs @ [column], lg @ [ErrorProcessingColumn column e])
      | Inr series \<Rightarrow>
          (case apply_series (remove_tags bs) series of
             (Inl e, l) \<Rightarrow> (df, errs @ [column], lg @ l @ [ErrorProcessingColumn column e])
           | (Inr cleaned, l) \<Rightarrow> (setitem df column cleaned, errs, lg @ l)))"

definition clean_columns ::
  "parser \<Rightarrow> string list \<Rightarrow> dataframe \<times> string list \<times> log_entry list
     \<Rightarrow> dataframe \<times> string list \<times> log_entry list" where
  "clean_columns bs columns s = fold (clean_column bs) columns s"

text \<open>The variables of the job: the database behind \<open>engine\<close>, the two counters, the log.\<close>

record job_state =
  js_db :: database
  processed_count :: int
  error_columns :: "string list"
  js_log :: "log_entry list"

text \<open>
  How the \<open>while True\<close> is left: the \<open>break\<close> of line 60 (empty DataFrame), of line 81
  (\<open>SQLAlchemyError\<close>) or of line 84 (any other exception).
\<close>

datatype loop_exit = BreakNoNewData | BreakSQLAlchemyError exn | BreakUnexpectedError exn

datatype step = Break loop_exit job_state | Continue job_state

text \<open>
  One pass through the body of the loop (lines 52-84). \<open>processed_count\<close> grows by
  \<open>len(df)\<close> before the write is tried.
\<close>

definition iteration :: "parser \<Rightarrow> job_state \<Rightarrow> step" where
  "iteration bs st =
     (case download_table_to_df (js_db st) RAW_DATA_TABLE_NAME PROCESSED_DATA_TABLE_NAME 100 of
        (df, l1) \<Rightarrow>
          if df_empty df
          then Break BreakNoNewData
                 (st\<lparr>processed_count := processed_count st + int (length (df_rows df)),
                     js_log := js_log st @ l1 @ [NoNewDataToProcess]\<rparr>)
          else
            (case clean_columns bs columns_to_clean (df, error_columns st, js_log st @ l1) of
               (df', errs, lg) \<Rightarrow>
                 (case to_sql (js_db st) PROCESSED_DATA_TABLE_NAME df' of
                    Inr db' \<Rightarrow>
                      Continue
                        \<lparr>js_db = db',
                         processed_count = processed_count st + int (length (df_rows df)),
                         error_columns = errs,
                         js_log = lg @ [InsertionCompleted]\<rparr>
                  | Inl e \<Rightarrow>
                      if is_sqlalchemy_error e
                      then Break (BreakSQLAlchemyError e)
                             \<lparr>js_db = js_db st,
                              processed_count = processed_count st + int (length (df_rows df)),
                              error_columns = errs,
                              js_log = lg @ [SQLAlchemyErrorLogged e]\<rparr>
                      else Break (BreakUnexpectedError e)
                             \<lparr>js_db = js_db st,
                              processed_count = processed_count st + int (length (df_rows df)),
                              error_columns = errs,
                              js_log = lg @ [UnexpectedErrorLogged e]\<rparr>)))"

text \<open>
  The \<open>while True\<close> loop may run forever, so it takes fuel: \<open>None\<close> is a loop that has not
  left after that many passes.
\<close>

fun main_loop :: "parser \<Rightarrow> nat \<Rightarrow> job_state \<Rightarrow> (loop_exit \<times> job_state) option" where
  "main_loop bs 0 st = None"
| "main_loop bs (Suc n) st =
     (case iteration bs st of
        Break x st' \<Rightarrow> Some (x, st')
      | Continue st' \<Rightarrow> main_loop bs n st')"

text \<open>The state at line 50, after \<open>connect_with_connector()\<close> has returned.\<close>

definition start_state :: "database \<Rightarrow> job_state" where
  "start_state db =
     \<lparr>js_db = db, processed_count = 0, error_columns = [], js_log = [StartOfJob]\<rparr>"

text \<open>Lines 90-93: the summary, written however the job went.\<close>

definition summary :: "job_state \<Rightarrow> log_entry list" where
  "summary st =
     [ProcessedRowsCount (processed_count st)]
     @ (if error_columns st \<noteq> [] then [RowsFailedToProcess (error_columns st)] else [])
     @ [EndOfJob]"

text \<open>
  The whole \<open>__main__\<close> block. \<open>connect\<close> is what \<open>connect_with_connector()\<close> does: it
  returns the engine (\<open>None\<close>) or raises, and a raise is caught by line 87.
\<close>

definition job :: "parser \<Rightarrow> nat \<Rightarrow> exn option \<Rightarrow> database \<Rightarrow> job_state option" where
  "job bs fuel connect db =
     (case connect of
        Some e \<Rightarrow>
          Some ((start_state db)\<lparr>js_log := [StartOfJob, ErrorInMain e] @ summary (start_state db)\<rparr>)
      | None \<Rightarrow>
          (case main_loop bs fuel (start_state db) of
             None \<Rightarrow> None
           | Some (x, st) \<Rightarrow> Some (st\<lparr>js_log := js_log st @ summary st\<rparr>)))"

section \<open>The schema reconciler and the upserter: \<open>TableUpdater\<close> (utils/table_update.py)\<close>

text \<open>
  The names the module binds: its imports (lines 1-9) and its class. A name that is used
  and is neither here nor a builtin raises \<open>NameError\<close> when the line that uses it runs.
\<close>

definition module_globals :: "string list" where
  "module_globals =
     [''yaml'', ''create_engine'', ''MetaData'', ''Table'', ''Column'', ''ForeignKey'',
      ''BigInteger'', ''Boolean'', ''CHAR'', ''Date'', ''DateTime'', ''Float'', ''Integer'',
      ''LargeBinary'', ''Numeric'', ''SmallInteger'', ''String'', ''Text'', ''Time'',
      ''TIMESTAMP'', ''VARBINARY'', ''VARCHAR'', ''insert'', ''NoSuchTableError'',
      ''TableUpdater'']"

text \<open>A column of the YAML schema, and a table of it (\<open>load_schema\<close> returns a list of these).\<close>

record column_spec =
  cs_name :: string
  cs_type :: string
  cs_primary_key :: bool
  cs_foreign_key :: "string option"
  cs_timezone :: bool

record table_spec =
  ts_name :: string
  ts_columns :: "column_spec list"

text \<open>The \<open>Column\<close> object built for a column of the schema.\<close>

record sa_column =
  c_name :: string
  c_type :: string
  c_timezone :: bool
  c_primary_key :: bool
  c_foreign_key :: "string option"

text \<open>The keys of \<open>type_mapping\<close> (lines 35-52), and the types whose constructor takes \<open>timezone\<close>.\<close>

definition type_mapping :: "string list" where
  "type_mapping =
     [''BigInteger'', ''Boolean'', ''CHAR'', ''Date'', ''DateTime'', ''Float'', ''Integer'',
      ''LargeBinary'', ''Numeric'', ''SmallInteger'', ''String'', ''Text'', ''Time'',
      ''TIMESTAMP'', ''VARBINARY'', ''VARCHAR'']"

definition timezone_types :: "string list" where
  "timezone_types = [''DateTime'', ''Time'', ''TIMESTAMP'']"

text \<open>
  Lines 76-82 for one column: \<open>KeyError\<close> for a type that is no key of \<open>type_mapping\<close>,
  \<open>TypeError\<close> when \<open>timezone\<close> is asked of a type that has none; a column with a foreign
  key is built without the primary-key flag.
\<close>

definition build_column :: "column_spec \<Rightarrow> exn + sa_column" where
  "build_column col =
     (if cs_type col \<notin> set type_mapping then Inl (KeyError (cs_type col))
      else if cs_timezone col \<and> cs_type col \<notin> set timezone_types
      then Inl (TypeError ''unexpected keyword argument timezone'')
      else Inr \<lparr>c_name = cs_name col, c_type = cs_type col, c_timezone = cs_timezone col,
                c_primary_key = (case cs_foreign_key col of
                                   None \<Rightarrow> cs_primary_key col
                                 | Some fk \<Rightarrow> False),
                c_foreign_key = cs_foreign_key col\<rparr>)"

fun build_columns :: "column_spec list \<Rightarrow> exn + sa_column list" where
  "build_columns [] = Inr []"
| "build_columns (col # cols) =
     (case build_column col of
        Inl e \<Rightarrow> Inl e
      | Inr c \<Rightarrow> (case build_columns cols of Inl e \<Rightarrow> Inl e | Inr cs \<Rightarrow> Inr (c # cs)))"

text \<open>
  \<open>Table(table_name, self.metadata, *columns, extend_existing=True)\<close> (line 84): a new
  table of these columns, or the table the metadata already has under the name with
  each column replaced or appended.
\<close>

fun replace_or_append :: "sa_column \<Rightarrow> sa_column list \<Rightarrow> sa_column list" where
  "replace_or_append c [] = [c]"
| "replace_or_append c (d # ds) =
     (if c_name d = c_name c then c # ds else d # replace_or_append c ds)"

definition make_table ::
  "(string \<rightharpoonup> sa_column list) \<Rightarrow> string \<Rightarrow> sa_column list \<Rightarrow> sa_column list" where
  "make_table md name columns =
     fold replace_or_append columns (case md name of None \<Rightarrow> [] | Some old \<Rightarrow> old)"

text \<open>What the reconciler prints, and the transaction calls it makes, in order.\<close>

datatype event =
    Begin
  | Commit
  | Rollback
  | PrintTransCommit
  | PrintErrorCreatingTable exn
  | PrintExistingColumns string "string list"
  | PrintAddingColumn string
  | PrintErrorAlteringTable exn
  | PrintColumnAlreadyExists string

text \<open>
  The state of a \<open>TableUpdater\<close> and of what it works on: \<open>self.tables\<close> (the registered
  tables, the same objects the metadata holds), the database behind \<open>self.engine\<close>, and
  the trace of events.
\<close>

record updater =
  u_tables :: "string \<rightharpoonup> sa_column list"
  u_db :: database
  u_trace :: "event list"

datatype outcome = Returned | Raised exn

text \<open>
  \<open>table.create(conn, checkfirst=True)\<close> (line 89): nothing when the table exists, else
  \<open>CREATE TABLE\<close> with all the columns; it fails when a foreign key names a table or
  column (\<open>"table.column"\<close>) the database does not have.
\<close>

definition fk_resolves :: "database \<Rightarrow> string \<Rightarrow> bool" where
  "fk_resolves db fk =
     (case db (takeWhile (\<lambda>ch. ch \<noteq> CHR ''.'') fk) of
        None \<Rightarrow> False
      | Some t \<Rightarrow> tl (dropWhile (\<lambda>ch. ch \<noteq> CHR ''.'') fk) \<in> set (t_columns t))"

definition table_create :: "database \<Rightarrow> string \<Rightarrow> sa_column list \<Rightarrow> exn + database" where
  "table_create db name cols =
     (case db name of
        Some t \<Rightarrow> Inr db
      | None \<Rightarrow>
          if list_all (\<lambda>c. case c_foreign_key c of None \<Rightarrow> True | Some fk \<Rightarrow> fk_resolves db fk) cols
          then Inr (db(name \<mapsto> \<lparr>t_columns = map c_name cols,
                                  t_pkey = map c_name (filter c_primary_key cols),
                                  t_rows = []\<rparr>))
          else Inl (SQLAlchemyError ''referenced table or column does not exist''))"

text \<open>\<open>ALTER TABLE name ADD COLUMN column type\<close> (line 104): existing rows take \<open>NULL\<close>.\<close>

definition alter_add_column :: "database \<Rightarrow> string \<Rightarrow> string \<Rightarrow> exn + database" where
  "alter_add_column db name column =
     (case db name of
        None \<Rightarrow> Inl (SQLAlchemyError ''relation does not exist'')
      | Some t \<Rightarrow>
          if column \<in> set (t_columns t) then Inl (SQLAlchemyError ''column already exists'')
          else Inr (db(name \<mapsto> t\<lparr>t_columns := t_columns t @ [column],
                                   t_rows := map (\<lambda>r. r @ [Null]) (t_rows t)\<rparr>)))"

text \<open>
  \<open>except exc.SQLAlchemyError as e\<close> (lines 92, 110) meeting an exception \<open>e\<close>: the
  expression \<open>exc.SQLAlchemyError\<close> is evaluated first, so an unbound \<open>exc\<close> raises
  \<open>NameError\<close> in place of \<open>e\<close>; else the clause catches \<open>e\<close> (\<open>None\<close>) or lets it pass.
\<close>

definition except_exc_SQLAlchemyError :: "string list \<Rightarrow> exn \<Rightarrow> exn option" where
  "except_exc_SQLAlchemyError g e =
     (if ''exc'' \<in> set g then (if is_sqlalchemy_error e then None else Some e)
      else Some (NameError ''exc''))"

text \<open>
  The loop of lines 102-114 over the columns built from the schema; \<open>existing\<close> is the list
  read once at line 99. Each add is \<open>conn.begin()\<close>, the \<open>DDL\<close>, and \<open>commit\<close> or
  \<open>rollback\<close>. The name \<open>DDL\<close> is looked up when a missing column is met.
\<close>

fun add_missing_columns ::
  "string list \<Rightarrow> updater \<Rightarrow> string \<Rightarrow> string list \<Rightarrow> sa_column list \<Rightarrow> outcome \<times> updater" where
  "add_missing_columns g u name existing [] = (Returned, u)"
| "add_missing_columns g u name existing (column # columns) =
     (if c_name column \<in> set existing
      then add_missing_columns g
             (u\<lparr>u_trace := u_trace u @ [PrintColumnAlreadyExists (c_name column)]\<rparr>)
             name existing columns
      else if ''DDL'' \<notin> set g then (Raised (NameError ''DDL''), u)
      else
        (case alter_add_column (u_db u) name (c_name column) of
           Inr db' \<Rightarrow>
             add_missing_columns g
               (u\<lparr>u_db := db',
                  u_trace := u_trace u @ [PrintAddingColumn (c_name column), Begin, Commit]\<rparr>)
               name existing columns
         | Inl e \<Rightarrow>
             (case except_exc_SQLAlchemyError g e of
                Some e' \<Rightarrow>
                  (Raised e', u\<lparr>u_trace := u_trace u @ [PrintAddingColumn (c_name column), Begin]\<rparr>)
              | None \<Rightarrow>
                  add_missing_columns g
                    (u\<lparr>u_trace := u_trace u @ [PrintAddingColumn (c_name column), Begin,
                                                PrintErrorAlteringTable e, Rollback]\<rparr>)
                    name existing columns)))"

text \<open>
  Lines 97-114: \<open>inspect(conn)\<close>, the live column names, then the loop. \<open>get_columns\<close> of
  a table that does not exist raises.
\<close>

definition inspect_and_add ::
  "string list \<Rightarrow> updater \<Rightarrow> string \<Rightarrow> sa_column list \<Rightarrow> outcome \<times> updater" where
  "inspect_and_add g u name columns =
     (if ''inspect'' \<notin> set g then (Raised (NameError ''inspect''), u)
      else
        (case u_db u name of
           None \<Rightarrow> (Raised (SQLAlchemyError ''NoSuchTableError''), u)
         | Some t \<Rightarrow>
             add_missing_columns g
               (u\<lparr>u_trace := u_trace u @ [PrintExistingColumns name (t_columns t)]\<rparr>)
               name (t_columns t) columns))"

text \<open>
  The body of \<open>for schema in schemas\<close> (lines 71-114): build the columns, register the
  table in \<open>self.tables\<close>, create it inside a transaction, then inspect and add.
\<close>

definition reconcile_table :: "string list \<Rightarrow> updater \<Rightarrow> table_spec \<Rightarrow> outcome \<times> updater" where
  "reconcile_table g u schema =
     (case build_columns (ts_columns schema) of
        Inl e \<Rightarrow> (Raised e, u)
      | Inr columns \<Rightarrow>
          (case table_create (u_db u) (ts_name schema)
                  (make_table (u_tables u) (ts_name schema) columns) of
             Inr db' \<Rightarrow>
               inspect_and_add g
                 (u\<lparr>u_tables := (u_tables u)(ts_name schema \<mapsto>
                                   make_table (u_tables u) (ts_name schema) columns),
                    u_db := db',
                    u_trace := u_trace u @ [Begin, Commit, PrintTransCommit]\<rparr>)
                 (ts_name schema) columns
           | Inl e \<Rightarrow>
               (case except_exc_SQLAlchemyError g e of
                  Some e' \<Rightarrow>
                    (Raised e',
                     u\<lparr>u_tables := (u_tables u)(ts_name schema \<mapsto>
                                       make_table (u_tables u) (ts_name schema) columns),
                        u_trace := u_trace u @ [Begin]\<rparr>)
                | None \<Rightarrow>
                    inspect_and_add g
                      (u\<lparr>u_tables := (u_tables u)(ts_name schema \<mapsto>
                                        make_table (u_tables u) (ts_name schema) columns),
                         u_trace := u_trace u @ [Begin, PrintErrorCreatingTable e, Rollback]\<rparr>)
                      (ts_name schema) columns)))"

text \<open>The loop over the schemas under a given set of bound names; an exception ends it.\<close>

fun reconcile_tables :: "string list \<Rightarrow> updater \<Rightarrow> table_spec list \<Rightarrow> outcome \<times> updater" where
  "reconcile_tables g u [] = (Returned, u)"
| "reconcile_tables g u (schema # schemas) =
     (case reconcile_table g u schema of
        (Raised e, u') \<Rightarrow> (Raised e, u')
      | (Returned, u') \<Rightarrow> reconcile_tables g u' schemas)"

text \<open>
  \<open>create_or_update_table\<close> (lines 65-114) as the module has it: the loop under the
  names the module binds. \<open>schemas\<close> is what \<open>load_schema\<close> read.
\<close>

definition create_or_update_table :: "updater \<Rightarrow> table_spec list \<Rightarrow> outcome \<times> updater" where
  "create_or_update_table u schemas = reconcile_tables module_globals u schemas"

text \<open>
  \<open>bulk_insert_data\<close> (lines 116-139). An item is a dict; \<open>complete_item\<close> (line 136) has
  one entry per column of the registered table, \<open>None\<close> where the item has no such key.
  Each statement of line 138-139 takes effect when it is executed.
\<close>

definition complete_item :: "string list \<Rightarrow> (string \<rightharpoonup> val) \<Rightarrow> (string \<times> val) list" where
  "complete_item table_columns item =
     map (\<lambda>col. (col, case item col of None \<Rightarrow> Null | Some v \<Rightarrow> v)) table_columns"

definition execute_insert_do_nothing ::
  "database \<Rightarrow> string \<Rightarrow> (string \<times> val) list \<Rightarrow> exn + database" where
  "execute_insert_do_nothing db name vs =
     (case db name of
        None \<Rightarrow> Inl (SQLAlchemyError ''relation does not exist'')
      | Some t \<Rightarrow>
          (case insert_row DoNothing t vs of
             Inl e \<Rightarrow> Inl e
           | Inr t' \<Rightarrow> Inr (db(name \<mapsto> t'))))"

fun insert_items ::
  "database \<Rightarrow> string \<Rightarrow> string list \<Rightarrow> (string \<rightharpoonup> val) list \<Rightarrow> outcome \<times> database" where
  "insert_items db name table_columns [] = (Returned, db)"
| "insert_items db name table_columns (item # data) =
     (case execute_insert_do_nothing db name (complete_item table_columns item) of
        Inl e \<Rightarrow> (Raised e, db)
      | Inr db' \<Rightarrow> insert_items db' name table_columns data)"

definition bulk_insert_data ::
  "updater \<Rightarrow> string \<Rightarrow> (string \<rightharpoonup> val) list \<Rightarrow> outcome \<times> updater" where
  "bulk_insert_data u table_name data =
     (case u_tables u table_name of
        None \<Rightarrow> (Raised (ValueError ''Table not initialized. Call create_or_update_table first.''), u)
      | Some tbl \<Rightarrow>
          (case insert_items (u_db u) table_name (map c_name tbl) data of
             (out, db') \<Rightarrow> (out, u\<lparr>u_db := db'\<rparr>)))"

section \<open>Additive change of a table\<close>

text \<open>
  A table \<open>t'\<close> extends \<open>t\<close> when the columns of \<open>t\<close> are the first columns of \<open>t'\<close>, in the
  same order, the key is the same, and there are as many rows: no column and no row
  was dropped, moved or renamed.
\<close>

definition table_extends :: "table \<Rightarrow> table \<Rightarrow> bool" where
  "table_extends t t' \<longleftrightarrow>
     take (length (t_columns t)) (t_columns t') = t_columns t
     \<and> t_pkey t' = t_pkey t
     \<and> length (t_rows t') = length (t_rows t)"

section \<open>A small database for the worked examples\<close>

text \<open>
  A raw table without the \<open>content\<close> column and with two documents, of which the first
  has been processed already.
\<close>

definition example_raw :: table where
  "example_raw =
     \<lparr>t_columns = [''id'', ''abstract_de'', ''abstract_it'', ''abstract_fr''],
      t_pkey = [],
      t_rows = [[Num 1, Str ''<p>Hallo</p>'', Null, Str ''<i>Salut</i>''],
                [Num 2, Str ''<b>Welt</b>'', Str ''ciao'', Null]]\<rparr>"

definition example_processed :: table where
  "example_processed =
     \<lparr>t_columns = [''id'', ''abstract_de'', ''abstract_it'', ''abstract_fr'', ''content''],
      t_pkey = [],
      t_rows = [[Num 1, Str ''Hallo'', Str [], Str ''Salut'', Null]]\<rparr>"

definition example_db :: database where
  "example_db =
     [RAW_DATA_TABLE_NAME \<mapsto> example_raw, PROCESSED_DATA_TABLE_NAME \<mapsto> example_processed]"

text \<open>The batch the selector reads from it: the second document.\<close>

definition example_batch :: dataframe where
  "example_batch =
     \<lparr>df_columns = [''id'', ''abstract_de'', ''abstract_it'', ''abstract_fr''],
      df_rows = [[Num 2, Str ''<b>Welt</b>'', Str ''ciao'', Null]]\<rparr>"

text \<open>The batch after the sanitizer, and the database after that batch is written.\<close>

definition example_cleaned :: dataframe where
  "example_cleaned =
     \<lparr>df_columns = [''id'', ''abstract_de'', ''abstract_it'', ''abstract_fr''],
      df_rows = [[Num 2, Str ''Welt'', Str ''ciao'', Str []]]\<rparr>"

definition example_db_after :: database where
  "example_db_after =
     example_db(PROCESSED_DATA_TABLE_NAME \<mapsto>
       example_processed\<lparr>t_rows := t_rows example_processed
                                       @ [[Num 2, Str ''Welt'', Str ''ciao'', Str [], Null]]\<rparr>)"

text \<open>The same database without the raw table: every query of the selector fails on it.\<close>

definition example_db_without_raw :: database where
  "example_db_without_raw = [PROCESSED_DATA_TABLE_NAME \<mapsto> example_processed]"

section \<open>Schemas and an updater for the worked examples\<close>

text \<open>The state \<open>__init__\<close> (lines 30-33) leaves: no registered table, nothing done yet.\<close>

definition fresh_updater :: "database \<Rightarrow> updater" where
  "fresh_updater db = \<lparr>u_tables = Map.empty, u_db = db, u_trace = []\<rparr>"

definition integer_column :: "string \<Rightarrow> bool \<Rightarrow> column_spec" where
  "integer_column name pk =
     \<lparr>cs_name = name, cs_type = ''Integer'', cs_primary_key = pk, cs_foreign_key = None,
      cs_timezone = False\<rparr>"

text \<open>A table \<open>t\<close> that exists with the columns \<open>a\<close>, \<open>b\<close>, and a schema that declares \<open>a\<close>, \<open>b\<close>, \<open>c\<close>.\<close>

definition example_table_ab :: table where
  "example_table_ab = \<lparr>t_columns = [''a'', ''b''], t_pkey = [''a''], t_rows = [[Num 1, Num 2]]\<rparr>"

definition example_schema_abc :: table_spec where
  "example_schema_abc =
     \<lparr>ts_name = ''t'',
      ts_columns = [integer_column ''a'' True, integer_column ''b'' False,
                    integer_column ''c'' False]\<rparr>"

text \<open>Two schemas of tables that do not exist yet.\<close>

definition example_schema_users :: table_spec where
  "example_schema_users =
     \<lparr>ts_name = ''users'',
      ts_columns = [integer_column ''id'' True, integer_column ''age'' False]\<rparr>"

definition example_schema_orders :: table_spec where
  "example_schema_orders =
     \<lparr>ts_name = ''orders'',
      ts_columns = [integer_column ''id'' True, integer_column ''amount'' False]\<rparr>"

text \<open>A schema with a foreign key to \<open>users.id\<close>.\<close>

definition example_schema_payments :: table_spec where
  "example_schema_payments =
     \<lparr>ts_name = ''payments'',
      ts_columns = [integer_column ''id'' True,
                    \<lparr>cs_name = ''user_id'', cs_type = ''Integer'', cs_primary_key = False,
                     cs_foreign_key = Some ''users.id'', cs_timezone = False\<rparr>]\<rparr>"

text \<open>The names the module binds, and the three it uses without binding them.\<close>

definition globals_with_missing_imports :: "string list" where
  "globals_with_missing_imports = ''inspect'' # ''DDL'' # ''exc'' # module_globals"

text \<open>
  An updater that has registered \<open>users\<close> and whose database has the table, still empty;
  and an item with a key the table does not declare and without the column \<open>age\<close>.
\<close>

definition example_users_columns :: "sa_column list" where
  "example_users_columns =
     [\<lparr>c_name = ''id'', c_type = ''Integer'', c_timezone = False, c_primary_key = True,
       c_foreign_key = None\<rparr>,
      \<lparr>c_name = ''age'', c_type = ''Integer'', c_timezone = False, c_primary_key = False,
       c_foreign_key = None\<rparr>]"

definition example_users_table :: table where
  "example_users_table = \<lparr>t_columns = [''id'', ''age''], t_pkey = [''id''], t_rows = []\<rparr>"

definition example_updater :: updater where
  "example_updater =
     \<lparr>u_tables = [''users'' \<mapsto> example_users_columns],
      u_db = [''users'' \<mapsto> example_users_table],
      u_trace = [Begin, Commit, PrintTransCommit]\<rparr>"

definition example_item :: "string \<rightharpoonup> val" where
  "example_item = [''id'' \<mapsto> Num 7, ''nickname'' \<mapsto> Str ''x'']"

section \<open>Properties of the sanitizer\<close>

lemma remove_tags_returns: "\<exists>v. fst (remove_tags bs html) = Inr v"
  by (simp add: remove_tags_def split: sum.split)

lemma remove_tags_null: "remove_tags bs Null = (Inr (Str []), [])"
  by (simp add: remove_tags_def remove_tags_body_def)

lemma remove_tags_parse_failure:
  "html \<noteq> Null \<Longrightarrow> bs html = Inl e \<Longrightarrow> remove_tags bs html = (Inr html, [ErrorInRemoveTags e])"
  by (simp add: remove_tags_def remove_tags_body_def)

lemma remove_tags_parse_success:
  "html \<noteq> Null \<Longrightarrow> bs html = Inr s \<Longrightarrow> remove_tags bs html = (Inr (Str s), [])"
  by (simp add: remove_tags_def remove_tags_body_def)

text \<open>
  C4. \<open>remove_tags\<close> never raises: for every parser and every input it returns a value.
  On \<open>None\<close> it returns the empty string. On an input for which the parsing raises it
  returns the input itself, unmodified. On every input other than \<open>None\<close> it returns either
  the text the parser produced (the plain-text transformation) or the input itself.
\<close>

theorem remove_tags_total_with_fallback:
  "(\<exists>v. fst (remove_tags bs html) = Inr v)
   \<and> fst (remove_tags bs Null) = Inr (Str [])
   \<and> (\<forall>e. html \<noteq> Null \<and> bs html = Inl e \<longrightarrow> fst (remove_tags bs html) = Inr html)
   \<and> (html \<noteq> Null \<longrightarrow>
        (\<exists>s. bs html = Inr s \<and> fst (remove_tags bs html) = Inr (Str s))
        \<or> fst (remove_tags bs html) = Inr html)"
proof -
  have fallback: "fst (remove_tags bs html) = Inr html" if "html \<noteq> Null" "bs html = Inl e" for e
    using that by (simp add: remove_tags_parse_failure)
  have either: "(\<exists>s. bs html = Inr s \<and> fst (remove_tags bs html) = Inr (Str s))
      \<or> fst (remove_tags bs html) = Inr html" if nn: "html \<noteq> Null"
  proof (cases "bs html")
    case (Inl e)
    then show ?thesis using fallback [OF nn] by simp
  next
    case (Inr s)
    then show ?thesis using nn by (simp add: remove_tags_parse_success)
  qed
  show ?thesis
    using remove_tags_returns [of bs html] remove_tags_null [of bs] fallback either
    by auto
qed

text \<open>
  The theorem at a number, which the stand-in parser refuses: the number comes back as
  it went in.
\<close>

theorem remove_tags_total_with_fallback_witness:
  "Num 5 \<noteq> Null
   \<and> sample_parser (Num 5) = Inl (TypeError ''markup is not a string'')
   \<and> fst (remove_tags sample_parser (Num 5)) = Inr (Num 5)
   \<and> fst (remove_tags sample_parser Null) = Inr (Str [])"
proof -
  have p: "sample_parser (Num 5) = Inl (TypeError ''markup is not a string'')"
    by (simp add: sample_parser_def)
  have "fst (remove_tags sample_parser (Num 5)) = Inr (Num 5)"
    using remove_tags_total_with_fallback [of sample_parser "Num 5"] p by blast
  moreover have "fst (remove_tags sample_parser Null) = Inr (Str [])"
    using remove_tags_total_with_fallback [of sample_parser "Num 5"] by blast
  ultimately show ?thesis using p by simp
qed

section \<open>Basic facts about cells, inserts and the selector\<close>

lemma index_of_None_iff: "index_of x xs = None \<longleftrightarrow> x \<notin> set xs"
  by (induction xs) auto

lemma index_of_SomeD: "index_of x xs = Some i \<Longrightarrow> i < length xs \<and> xs ! i = x"
  by (induction xs arbitrary: i) (auto split: if_splits)

lemma field_map: "c \<in> set cols \<Longrightarrow> field cols (map f cols) c = f c"
proof -
  assume "c \<in> set cols"
  then obtain i where i: "index_of c cols = Some i"
    using index_of_None_iff [of c cols] by (cases "index_of c cols") auto
  from index_of_SomeD [OF i] show ?thesis
    by (simp add: field_def i cell_def)
qed

lemma stored_row_columns: "t_columns t' = t_columns t \<Longrightarrow> stored_row t' vs = stored_row t vs"
  by (simp add: stored_row_def)

lemma pk_of_cong: "t_columns t' = t_columns t \<Longrightarrow> t_pkey t' = t_pkey t \<Longrightarrow> pk_of t' r = pk_of t r"
  by (simp add: pk_of_def)

lemma insert_row_Inr:
  "insert_row policy t vs = Inr t' \<Longrightarrow>
     t_columns t' = t_columns t \<and> t_pkey t' = t_pkey t
     \<and> (t_rows t' = t_rows t \<or> t_rows t' = t_rows t @ [stored_row t vs])"
  by (auto simp: insert_row_def split: if_splits on_conflict.splits)

lemma insert_row_Fail_Inr:
  "insert_row Fail t vs = Inr t' \<Longrightarrow>
     t_columns t' = t_columns t \<and> t_pkey t' = t_pkey t
     \<and> t_rows t' = t_rows t @ [stored_row t vs]"
  by (auto simp: insert_row_def split: if_splits)

lemma insert_rows_Inr:
  "insert_rows t recs = Inr t' \<Longrightarrow>
     t_columns t' = t_columns t \<and> t_pkey t' = t_pkey t
     \<and> t_rows t' = t_rows t @ map (stored_row t) recs"
proof (induction recs arbitrary: t)
  case Nil
  then show ?case by simp
next
  case (Cons vs rest)
  from Cons.prems obtain t1 where t1: "insert_row Fail t vs = Inr t1" and r: "insert_rows t1 rest = Inr t'"
    by (auto split: sum.splits)
  from insert_row_Fail_Inr [OF t1] Cons.IH [OF r] show ?case
    by (simp add: stored_row_def)
qed

lemma stored_record_id:
  assumes "c \<in> set (df_columns B)" "c \<in> set (t_columns P)"
  shows "field (t_columns P) (stored_row P (map (\<lambda>c. (c, field (df_columns B) b c)) (df_columns B))) c
         = field (df_columns B) b c"
proof -
  have "map_of (map (\<lambda>c. (c, field (df_columns B) b c)) (df_columns B)) c = Some (field (df_columns B) b c)"
    using assms(1) by (simp add: map_of_map_restrict)
  then show ?thesis
    using assms(2) by (simp add: stored_row_def field_map)
qed

lemma select_unprocessed_rows:
  assumes "select_unprocessed db raw proc limit = Inr df" "db raw = Some R" "db proc = Some P"
  shows "df_columns df = t_columns R"
    and "set (df_rows df) \<subseteq> set (t_rows R)"
    and "length (df_rows df) \<le> nat limit"
    and "r \<in> set (df_rows df) \<Longrightarrow> p \<in> set (t_rows P) \<Longrightarrow>
           \<not> sql_eq (field (t_columns R) r ''id'') (field (t_columns P) p ''id'')"
    and "''id'' \<in> set (t_columns R)" and "''id'' \<in> set (t_columns P)"
  using assms
  by (auto simp: select_unprocessed_def list_ex_iff split: if_splits dest!: in_set_takeD)

lemma download_cases:
  "(\<exists>df. select_unprocessed db raw proc limit = Inr df \<and> download_table_to_df db raw proc limit = (df, []))
   \<or> (\<exists>e. select_unprocessed db raw proc limit = Inl e
          \<and> download_table_to_df db raw proc limit = (empty_dataframe, [ErrorInDownload e]))"
  by (cases "select_unprocessed db raw proc limit") (auto simp: download_table_to_df_def)

section \<open>The selector returns unprocessed rows only\<close>

text \<open>
  C1. For a raw table \<open>R\<close>, a processed table \<open>P\<close> and a positive limit, every row that
  \<open>download_table_to_df\<close> returns is a row of \<open>R\<close>, no row of \<open>P\<close> matches its \<open>id\<close>, and
  there are at most \<open>limit\<close> rows. And after any batch \<open>B\<close> that carries an \<open>id\<close> column has
  been written to the processed table with \<open>to_sql\<close>, the next call returns no row whose
  \<open>id\<close> is the identity key of a row of \<open>B\<close> (a row of \<open>B\<close> whose \<open>id\<close> is \<open>NULL\<close> has no
  identity key: SQL's \<open>=\<close> never matches it).
\<close>

theorem select_batch_set_difference:
  assumes R: "db raw = Some R" and P: "db proc = Some P" and lim: "0 < limit"
  shows "set (df_rows (fst (download_table_to_df db raw proc limit))) \<subseteq> set (t_rows R)
    \<and> (\<forall>r \<in> set (df_rows (fst (download_table_to_df db raw proc limit))).
         \<forall>p \<in> set (t_rows P).
           \<not> sql_eq (field (t_columns R) r ''id'') (field (t_columns P) p ''id''))
    \<and> length (df_rows (fst (download_table_to_df db raw proc limit))) \<le> nat limit
    \<and> (\<forall>B db'. to_sql db proc B = Inr db' \<and> ''id'' \<in> set (df_columns B) \<longrightarrow>
         (\<forall>r \<in> set (df_rows (fst (download_table_to_df db' raw proc limit))).
            \<forall>b \<in> set (df_rows B).
              field (df_columns B) b ''id'' \<noteq> Null \<longrightarrow>
              field (t_columns R) r ''id'' \<noteq> field (df_columns B) b ''id''))"
proof -
  let ?df = "fst (download_table_to_df db raw proc limit)"
  have first: "set (df_rows ?df) \<subseteq> set (t_rows R)
    \<and> (\<forall>r \<in> set (df_rows ?df). \<forall>p \<in> set (t_rows P).
           \<not> sql_eq (field (t_columns R) r ''id'') (field (t_columns P) p ''id''))
    \<and> length (df_rows ?df) \<le> nat limit"
  proof (cases "select_unprocessed db raw proc limit")
    case (Inl e)
    then show ?thesis by (simp add: download_table_to_df_def empty_dataframe_def)
  next
    case (Inr df)
    then have "?df = df" by (simp add: download_table_to_df_def)
    with select_unprocessed_rows(2,3,4) [OF Inr R P] show ?thesis by blast
  qed
  have later: "field (t_columns R) r ''id'' \<noteq> field (df_columns B) b ''id''"
    if w: "to_sql db proc B = Inr db'" and idB: "''id'' \<in> set (df_columns B)"
      and r: "r \<in> set (df_rows (fst (download_table_to_df db' raw proc limit)))"
      and b: "b \<in> set (df_rows B)" and nn: "field (df_columns B) b ''id'' \<noteq> Null"
    for B db' r b
  proof -
    from w P obtain P' where ins: "insert_rows P (df_records B) = Inr P'"
      and db': "db' = db(proc \<mapsto> P')"
      by (auto simp: to_sql_def split: sum.splits)
    note P'_facts = insert_rows_Inr [OF ins]
    obtain R' where R': "db' raw = Some R'" and colsR': "t_columns R' = t_columns R"
      using db' R P P'_facts by (cases "raw = proc") auto
    have P': "db' proc = Some P'" using db' by simp
    from r obtain df where sel: "select_unprocessed db' raw proc limit = Inr df"
      and rdf: "r \<in> set (df_rows df)"
      by (cases "select_unprocessed db' raw proc limit")
         (auto simp: download_table_to_df_def empty_dataframe_def)
    have idP: "''id'' \<in> set (t_columns P)"
      using select_unprocessed_rows(6) [OF sel R' P'] P'_facts by simp
    let ?rec = "map (\<lambda>c. (c, field (df_columns B) b c)) (df_columns B)"
    have "?rec \<in> set (df_records B)" using b by (auto simp: df_records_def)
    then have "stored_row P ?rec \<in> set (t_rows P')" using P'_facts by simp
    from select_unprocessed_rows(4) [OF sel R' P' rdf this]
    have "\<not> sql_eq (field (t_columns R) r ''id'') (field (t_columns P) (stored_row P ?rec) ''id'')"
      using colsR' P'_facts by simp
    then have "\<not> sql_eq (field (t_columns R) r ''id'') (field (df_columns B) b ''id'')"
      by (simp add: stored_record_id [OF idB idP])
    with nn show ?thesis by (auto simp: sql_eq_def)
  qed
  from first later show ?thesis by blast
qed


section \<open>The example database, evaluated\<close>

lemma example_db_raw: "example_db RAW_DATA_TABLE_NAME = Some example_raw"
  by (simp add: example_db_def RAW_DATA_TABLE_NAME_def PROCESSED_DATA_TABLE_NAME_def)

lemma example_db_processed: "example_db PROCESSED_DATA_TABLE_NAME = Some example_processed"
  by (simp add: example_db_def)

lemma example_download:
  "download_table_to_df example_db RAW_DATA_TABLE_NAME PROCESSED_DATA_TABLE_NAME 100 = (example_batch, [])"
  by (simp add: download_table_to_df_def select_unprocessed_def example_db_raw example_db_processed
      example_raw_def example_processed_def example_batch_def field_def cell_def sql_eq_def)


lemma example_records: "df_records example_batch =
  [[(''id'', Num 2), (''abstract_de'', Str ''<b>Welt</b>''), (''abstract_it'', Str ''ciao''), (''abstract_fr'', Null)]]"
  by (simp add: df_records_def example_batch_def field_def cell_def)

lemma example_write:
  "to_sql example_db PROCESSED_DATA_TABLE_NAME example_batch =
     Inr (example_db(PROCESSED_DATA_TABLE_NAME \<mapsto>
       example_processed\<lparr>t_rows := t_rows example_processed @ [[Num 2, Str ''<b>Welt</b>'', Str ''ciao'', Null, Null]]\<rparr>))"
  by (simp add: to_sql_def example_db_processed example_records insert_row_def stored_row_def pk_of_def
      example_processed_def)

text \<open>
  The theorem on the example database: the batch is the second document, and once it is
  written the selector no longer returns the key 2.
\<close>

theorem select_batch_set_difference_witness:
  "example_db RAW_DATA_TABLE_NAME = Some example_raw
   \<and> example_db PROCESSED_DATA_TABLE_NAME = Some example_processed
   \<and> (0::int) < 100
   \<and> set (df_rows (fst (download_table_to_df example_db RAW_DATA_TABLE_NAME PROCESSED_DATA_TABLE_NAME 100)))
        \<subseteq> set (t_rows example_raw)
   \<and> length (df_rows (fst (download_table_to_df example_db RAW_DATA_TABLE_NAME PROCESSED_DATA_TABLE_NAME 100)))
        \<le> nat 100
   \<and> (case to_sql example_db PROCESSED_DATA_TABLE_NAME example_batch of
         Inl e \<Rightarrow> False
       | Inr db' \<Rightarrow>
           ''id'' \<in> set (df_columns example_batch)
           \<and> Num 2 \<notin> (\<lambda>r. field (t_columns example_raw) r ''id'') `
                 set (df_rows (fst (download_table_to_df db' RAW_DATA_TABLE_NAME PROCESSED_DATA_TABLE_NAME 100))))"
proof -
  note inst = select_batch_set_difference [OF example_db_raw example_db_processed, of 100]
  obtain db' where w: "to_sql example_db PROCESSED_DATA_TABLE_NAME example_batch = Inr db'"
    using example_write by blast
  have idB: "''id'' \<in> set (df_columns example_batch)" by (simp add: example_batch_def)
  have b: "[Num 2, Str ''<b>Welt</b>'', Str ''ciao'', Null] \<in> set (df_rows example_batch)"
    by (simp add: example_batch_def)
  have fb: "field (df_columns example_batch) [Num 2, Str ''<b>Welt</b>'', Str ''ciao'', Null] ''id'' = Num 2"
    by (simp add: example_batch_def field_def cell_def)
  have "\<forall>r \<in> set (df_rows (fst (download_table_to_df db' RAW_DATA_TABLE_NAME PROCESSED_DATA_TABLE_NAME 100))).
          field (t_columns example_raw) r ''id'' \<noteq> Num 2"
    using inst w idB b fb by (metis val.distinct(3) zero_less_numeral)
  then have "Num 2 \<notin> (\<lambda>r. field (t_columns example_raw) r ''id'') `
      set (df_rows (fst (download_table_to_df db' RAW_DATA_TABLE_NAME PROCESSED_DATA_TABLE_NAME 100)))"
    by auto
  with inst w idB show ?thesis
    by (simp add: example_db_raw example_db_processed)
qed

section \<open>Running the batch loop a second time\<close>

lemma clean_column_df_indep:
  "fst (clean_column bs c (df, e, l)) = fst (clean_column bs c (df, e', l'))"
  by (simp split: sum.splits prod.splits)

lemma clean_columns_df_indep:
  "fst (clean_columns bs cols (df, e, l)) = fst (clean_columns bs cols (df, e', l'))"
proof (induction cols arbitrary: df e l e' l')
  case Nil
  then show ?case by (simp add: clean_columns_def)
next
  case (Cons c cols)
  obtain df1 e1 l1 where s1: "clean_column bs c (df, e, l) = (df1, e1, l1)"
    by (cases "clean_column bs c (df, e, l)") auto
  obtain df2 e2 l2 where s2: "clean_column bs c (df, e', l') = (df2, e2, l2)"
    by (cases "clean_column bs c (df, e', l')") auto
  have "df1 = df2"
    using clean_column_df_indep [of bs c df e l e' l'] s1 s2 by simp
  with Cons.IH [of df1 e1 l1 e2 l2] s1 s2 show ?case
    by (simp add: clean_columns_def)
qed

lemma download_empty_rows:
  "df_empty (fst (download_table_to_df db raw proc limit)) \<Longrightarrow>
   df_rows (fst (download_table_to_df db raw proc limit)) = []"
  by (auto simp: download_table_to_df_def select_unprocessed_def empty_dataframe_def df_empty_def
      split: option.splits if_splits)

text \<open>What decides how a pass ends is the database alone.\<close>

lemma iteration_Break_transfer:
  assumes "iteration bs st = Break x st'" and "js_db st2 = js_db st"
  shows "\<exists>st2'. iteration bs st2 = Break x st2' \<and> js_db st2' = js_db st
           \<and> js_db st' = js_db st
           \<and> processed_count st2' = processed_count st2
               + int (length (df_rows (fst (download_table_to_df (js_db st)
                     RAW_DATA_TABLE_NAME PROCESSED_DATA_TABLE_NAME 100))))
           \<and> (x = BreakNoNewData \<longrightarrow>
                df_empty (fst (download_table_to_df (js_db st)
                     RAW_DATA_TABLE_NAME PROCESSED_DATA_TABLE_NAME 100)))"
proof -
  obtain df l1 where d: "download_table_to_df (js_db st) RAW_DATA_TABLE_NAME PROCESSED_DATA_TABLE_NAME 100 = (df, l1)"
    by (cases "download_table_to_df (js_db st) RAW_DATA_TABLE_NAME PROCESSED_DATA_TABLE_NAME 100") auto
  show ?thesis
  proof (cases "df_empty df")
    case True
    with assms d show ?thesis by (auto simp: iteration_def)
  next
    case False
    obtain df1 e1 g1 where c1: "clean_columns bs columns_to_clean (df, error_columns st, js_log st @ l1) = (df1, e1, g1)"
      by (cases "clean_columns bs columns_to_clean (df, error_columns st, js_log st @ l1)") auto
    obtain df2 e2 g2 where c2: "clean_columns bs columns_to_clean (df, error_columns st2, js_log st2 @ l1) = (df2, e2, g2)"
      by (cases "clean_columns bs columns_to_clean (df, error_columns st2, js_log st2 @ l1)") auto
    have same: "df2 = df1"
      using clean_columns_df_indep [of bs columns_to_clean df "error_columns st" "js_log st @ l1"
          "error_columns st2" "js_log st2 @ l1"] c1 c2 by simp
    from assms(1) d False c1 obtain e where w: "to_sql (js_db st) PROCESSED_DATA_TABLE_NAME df1 = Inl e"
      by (cases "to_sql (js_db st) PROCESSED_DATA_TABLE_NAME df1") (auto simp: iteration_def)
    with assms d False c1 c2 same show ?thesis
      by (auto simp: iteration_def split: if_splits)
  qed
qed

lemma main_loop_last_iteration:
  "main_loop bs n st = Some (x, st1) \<Longrightarrow>
     \<exists>st0. iteration bs st0 = Break x st1 \<and> js_db st0 = js_db st1"
proof (induction n arbitrary: st)
  case 0
  then show ?case by simp
next
  case (Suc n)
  show ?case
  proof (cases "iteration bs st")
    case (Break y st')
    with Suc.prems have "y = x" "st' = st1" by simp_all
    with Break iteration_Break_transfer [of bs st x st1 st] show ?thesis by auto
  next
    case (Continue st')
    with Suc.prems have "main_loop bs n st' = Some (x, st1)" by simp
    from Suc.IH [OF this] show ?thesis .
  qed
qed

text \<open>
  C2. Let a run of the batch loop from the start state have left the loop, by whatever
  \<open>break\<close>. A second run on the database it left, with any fuel, leaves the loop in its
  first pass by the same \<open>break\<close> and leaves the database as it is: it writes no row.
  When the first run ended on the empty batch (line 60), the first selector call of the
  second run returns no row, \<open>processed_count\<close> stays 0, and one pass is the whole run.
\<close>

theorem batch_rerun_writes_nothing:
  assumes first_run: "main_loop bs n (start_state d) = Some (x, st1)"
  shows "\<exists>st2. main_loop bs (Suc m) (start_state (js_db st1)) = Some (x, st2)
           \<and> js_db st2 = js_db st1
           \<and> (x = BreakNoNewData \<longrightarrow>
                df_rows (fst (download_table_to_df (js_db st1)
                   RAW_DATA_TABLE_NAME PROCESSED_DATA_TABLE_NAME 100)) = []
                \<and> processed_count st2 = 0
                \<and> main_loop bs (Suc 0) (start_state (js_db st1)) = Some (x, st2))"
proof -
  from main_loop_last_iteration [OF first_run]
  obtain st0 where last: "iteration bs st0 = Break x st1" and db0: "js_db st0 = js_db st1"
    by blast
  have "js_db (start_state (js_db st1)) = js_db st0"
    using db0 by (simp add: start_state_def)
  from iteration_Break_transfer [OF last this]
  obtain st2 where it: "iteration bs (start_state (js_db st1)) = Break x st2"
    and db2: "js_db st2 = js_db st0"
    and cnt: "processed_count st2 = processed_count (start_state (js_db st1))
        + int (length (df_rows (fst (download_table_to_df (js_db st0)
              RAW_DATA_TABLE_NAME PROCESSED_DATA_TABLE_NAME 100))))"
    and emp: "x = BreakNoNewData \<longrightarrow>
        df_empty (fst (download_table_to_df (js_db st0)
              RAW_DATA_TABLE_NAME PROCESSED_DATA_TABLE_NAME 100))"
    by blast
  have run: "main_loop bs (Suc k) (start_state (js_db st1)) = Some (x, st2)" for k
    using it by simp
  have "df_rows (fst (download_table_to_df (js_db st1)
          RAW_DATA_TABLE_NAME PROCESSED_DATA_TABLE_NAME 100)) = []
        \<and> processed_count st2 = 0" if "x = BreakNoNewData"
    using that emp cnt db0 download_empty_rows [of "js_db st1" RAW_DATA_TABLE_NAME PROCESSED_DATA_TABLE_NAME 100]
    by (simp add: start_state_def)
  with run db2 db0 show ?thesis by auto
qed


section \<open>A run on the example database\<close>

lemma table_names_differ: "RAW_DATA_TABLE_NAME \<noteq> PROCESSED_DATA_TABLE_NAME"
  by (simp add: RAW_DATA_TABLE_NAME_def PROCESSED_DATA_TABLE_NAME_def)

lemma example_clean:
  "clean_columns sample_parser columns_to_clean (example_batch, errs, lg) =
     (example_cleaned, errs @ [''content''],
      lg @ [ErrorProcessingColumn ''content'' (KeyError ''content'')])"
  by (simp add: clean_columns_def columns_to_clean_def example_batch_def example_cleaned_def
      getitem_def setitem_def cell_def remove_tags_def remove_tags_body_def sample_parser_def)

lemma example_cleaned_records: "df_records example_cleaned =
  [[(''id'', Num 2), (''abstract_de'', Str ''Welt''), (''abstract_it'', Str ''ciao''), (''abstract_fr'', Str [])]]"
  by (simp add: df_records_def example_cleaned_def field_def cell_def)

lemma example_write_cleaned:
  "to_sql example_db PROCESSED_DATA_TABLE_NAME example_cleaned = Inr example_db_after"
  by (simp add: to_sql_def example_db_processed example_cleaned_records insert_row_def stored_row_def
      pk_of_def example_processed_def example_db_after_def)

lemma example_batch_shape: "\<not> df_empty example_batch" "length (df_rows example_batch) = 1"
  by (simp_all add: df_empty_def example_batch_def)

lemma example_iteration_first:
  "iteration sample_parser (start_state example_db) =
     Continue \<lparr>js_db = example_db_after, processed_count = 1, error_columns = [''content''],
               js_log = [StartOfJob, ErrorProcessingColumn ''content'' (KeyError ''content''),
                         InsertionCompleted]\<rparr>"
  by (simp add: iteration_def start_state_def example_download example_clean example_write_cleaned
      example_batch_shape)

lemma example_download_after:
  "download_table_to_df example_db_after RAW_DATA_TABLE_NAME PROCESSED_DATA_TABLE_NAME 100 =
     (\<lparr>df_columns = [''id'', ''abstract_de'', ''abstract_it'', ''abstract_fr''], df_rows = []\<rparr>, [])"
  by (simp add: download_table_to_df_def select_unprocessed_def example_db_after_def example_db_raw
      table_names_differ example_raw_def example_processed_def field_def cell_def sql_eq_def)

lemma example_iteration_second:
  "iteration sample_parser
     \<lparr>js_db = example_db_after, processed_count = 1, error_columns = [''content''],
      js_log = [StartOfJob, ErrorProcessingColumn ''content'' (KeyError ''content''),
                InsertionCompleted]\<rparr> =
   Break BreakNoNewData
     \<lparr>js_db = example_db_after, processed_count = 1, error_columns = [''content''],
      js_log = [StartOfJob, ErrorProcessingColumn ''content'' (KeyError ''content''),
                InsertionCompleted, NoNewDataToProcess]\<rparr>"
  by (simp add: iteration_def example_download_after df_empty_def)

lemma example_first_run:
  "main_loop sample_parser 2 (start_state example_db) =
     Some (BreakNoNewData,
           \<lparr>js_db = example_db_after, processed_count = 1, error_columns = [''content''],
            js_log = [StartOfJob, ErrorProcessingColumn ''content'' (KeyError ''content''),
                      InsertionCompleted, NoNewDataToProcess]\<rparr>)"
  by (simp add: numeral_2_eq_2 example_iteration_first example_iteration_second)

text \<open>
  The theorem on the example database: the first run processes the second document in
  two passes; the second run ends in its first pass with nothing processed.
\<close>

theorem batch_rerun_writes_nothing_witness:
  "(case main_loop sample_parser 2 (start_state example_db) of
      None \<Rightarrow> False
    | Some (x, st1) \<Rightarrow>
        x = BreakNoNewData \<and> processed_count st1 = 1
        \<and> (case main_loop sample_parser 1 (start_state (js_db st1)) of
             None \<Rightarrow> False
           | Some (y, st2) \<Rightarrow>
               y = BreakNoNewData \<and> js_db st2 = js_db st1 \<and> processed_count st2 = 0))"
proof -
  from batch_rerun_writes_nothing [OF example_first_run, of 0]
  obtain st2 where "main_loop sample_parser (Suc 0) (start_state example_db_after) = Some (BreakNoNewData, st2)"
    and "js_db st2 = example_db_after" and "processed_count st2 = 0"
    by auto
  then show ?thesis
    by (simp add: example_first_run)
qed

section \<open>A query failure of the selector\<close>

lemma download_on_failure:
  "select_unprocessed db raw proc limit = Inl e \<Longrightarrow>
   download_table_to_df db raw proc limit = (empty_dataframe, [ErrorInDownload e])"
  by (simp add: download_table_to_df_def)

lemma iteration_on_failure:
  assumes "select_unprocessed (js_db st) RAW_DATA_TABLE_NAME PROCESSED_DATA_TABLE_NAME 100 = Inl e"
  shows "iteration bs st =
           Break BreakNoNewData (st\<lparr>js_log := js_log st @ [ErrorInDownload e, NoNewDataToProcess]\<rparr>)"
  using download_on_failure [OF assms]
  by (simp add: iteration_def df_empty_def empty_dataframe_def)

text \<open>
  C5, as the code has it. When the query fails, \<open>download_table_to_df\<close> logs the error and
  returns the empty DataFrame of \<open>pd.DataFrame()\<close>, and that DataFrame is all it hands to
  its caller. The loop takes it for an empty batch: it logs "No new data to process." and
  leaves through the \<open>break\<close> of line 60, the one it takes on completion, with the database
  and the counters as they were.
\<close>

theorem selector_failure_ends_as_completion:
  assumes "select_unprocessed (js_db st) RAW_DATA_TABLE_NAME PROCESSED_DATA_TABLE_NAME 100 = Inl e"
  shows "download_table_to_df (js_db st) RAW_DATA_TABLE_NAME PROCESSED_DATA_TABLE_NAME 100
           = (empty_dataframe, [ErrorInDownload e])
       \<and> df_empty empty_dataframe
       \<and> main_loop bs (Suc n) st =
           Some (BreakNoNewData,
                 st\<lparr>js_log := js_log st @ [ErrorInDownload e, NoNewDataToProcess]\<rparr>)"
  using download_on_failure [OF assms] iteration_on_failure [OF assms, of bs]
  by (simp add: df_empty_def empty_dataframe_def)

lemma example_without_raw_fails:
  "select_unprocessed example_db_without_raw RAW_DATA_TABLE_NAME PROCESSED_DATA_TABLE_NAME 100
     = Inl (SQLAlchemyError ''relation does not exist'')"
  by (simp add: select_unprocessed_def example_db_without_raw_def table_names_differ)

text \<open>The theorem on the database that has no raw table.\<close>

theorem selector_failure_ends_as_completion_witness:
  "select_unprocessed (js_db (start_state example_db_without_raw))
       RAW_DATA_TABLE_NAME PROCESSED_DATA_TABLE_NAME 100
     = Inl (SQLAlchemyError ''relation does not exist'')
   \<and> main_loop sample_parser (Suc 0) (start_state example_db_without_raw) =
       Some (BreakNoNewData,
             \<lparr>js_db = example_db_without_raw, processed_count = 0, error_columns = [],
              js_log = [StartOfJob, ErrorInDownload (SQLAlchemyError ''relation does not exist''),
                        NoNewDataToProcess]\<rparr>)"
proof -
  have f: "select_unprocessed (js_db (start_state example_db_without_raw))
       RAW_DATA_TABLE_NAME PROCESSED_DATA_TABLE_NAME 100
     = Inl (SQLAlchemyError ''relation does not exist'')"
    using example_without_raw_fails by (simp add: start_state_def)
  from selector_failure_ends_as_completion [OF f, of sample_parser 0] f show ?thesis
    by (simp add: start_state_def)
qed

lemma example_after_completes:
  "main_loop sample_parser (Suc 0) (start_state example_db_after) =
     Some (BreakNoNewData,
           \<lparr>js_db = example_db_after, processed_count = 0, error_columns = [],
            js_log = [StartOfJob, NoNewDataToProcess]\<rparr>)"
  by (simp add: iteration_def start_state_def example_download_after df_empty_def)

lemma example_without_raw_loop:
  "main_loop sample_parser (Suc 0) (start_state example_db_without_raw) =
     Some (BreakNoNewData,
           \<lparr>js_db = example_db_without_raw, processed_count = 0, error_columns = [],
            js_log = [StartOfJob, ErrorInDownload (SQLAlchemyError ''relation does not exist''),
                      NoNewDataToProcess]\<rparr>)"
  using example_without_raw_fails
  by (simp add: iteration_def start_state_def download_table_to_df_def df_empty_def
      empty_dataframe_def)

text \<open>
  C5 as the claim states it fails on the database that has no raw table: the query
  fails, the selector returns \<open>pd.DataFrame()\<close>, and the loop leaves by the \<open>break\<close> of
  completion, the very exit of a run that has truly nothing left to do; the log of the
  job shows no line of the loop's error handlers, only "No new data to process.".
\<close>

theorem selector_failure_not_fatal_counterexample:
  "select_unprocessed example_db_without_raw RAW_DATA_TABLE_NAME PROCESSED_DATA_TABLE_NAME 100
     = Inl (SQLAlchemyError ''relation does not exist'')
   \<and> fst (download_table_to_df example_db_without_raw
             RAW_DATA_TABLE_NAME PROCESSED_DATA_TABLE_NAME 100) = empty_dataframe
   \<and> map_option fst (main_loop sample_parser (Suc 0) (start_state example_db_without_raw))
       = Some BreakNoNewData
   \<and> map_option fst (main_loop sample_parser (Suc 0) (start_state example_db_after))
       = Some BreakNoNewData
   \<and> map_option js_log (job sample_parser (Suc 0) None example_db_without_raw)
       = Some [StartOfJob, ErrorInDownload (SQLAlchemyError ''relation does not exist''),
               NoNewDataToProcess, ProcessedRowsCount 0, EndOfJob]"
  using example_without_raw_fails
  by (simp add: example_without_raw_loop example_after_completes job_def summary_def
      download_table_to_df_def del: main_loop.simps)

section \<open>A field whose sanitizing fails\<close>




























section \<open>The upserter: unregistered tables and undeclared keys\<close>

lemma add_missing_columns_tables:
  "add_missing_columns g u name existing columns = (out, u') \<Longrightarrow> u_tables u' = u_tables u"
proof (induction columns arbitrary: u)
  case Nil
  then show ?case by simp
next
  case (Cons column columns)
  show ?case
  proof (cases "c_name column \<in> set existing")
    case True
    with Cons.prems Cons.IH [of "u\<lparr>u_trace := u_trace u @ [PrintColumnAlreadyExists (c_name column)]\<rparr>"]
    show ?thesis by simp
  next
    case False
    show ?thesis
    proof (cases "''DDL'' \<in> set g")
      case no: False
      with False Cons.prems show ?thesis by simp
    next
      case yes: True
      show ?thesis
      proof (cases "alter_add_column (u_db u) name (c_name column)")
        case (Inr db')
        with False yes Cons.prems
          Cons.IH [of "u\<lparr>u_db := db',
                  u_trace := u_trace u @ [PrintAddingColumn (c_name column), Begin, Commit]\<rparr>"]
        show ?thesis by simp
      next
        case (Inl e)
        show ?thesis
        proof (cases "except_exc_SQLAlchemyError g e")
          case None
          with False yes Inl Cons.prems
            Cons.IH [of "u\<lparr>u_trace := u_trace u @ [PrintAddingColumn (c_name column), Begin,
                                                PrintErrorAlteringTable e, Rollback]\<rparr>"]
          show ?thesis by simp
        next
          case (Some e')
          with False yes Inl Cons.prems show ?thesis by auto
        qed
      qed
    qed
  qed
qed

lemma inspect_and_add_tables:
  "inspect_and_add g u name columns = (out, u') \<Longrightarrow> u_tables u' = u_tables u"
  by (auto simp: inspect_and_add_def split: if_splits option.splits
      dest!: add_missing_columns_tables)

lemma reconcile_table_tables:
  "reconcile_table g u schema = (out, u') \<Longrightarrow> name \<noteq> ts_name schema \<Longrightarrow>
     u_tables u' name = u_tables u name"
  by (auto simp: reconcile_table_def split: sum.splits option.splits
      dest!: inspect_and_add_tables)

lemma reconcile_tables_tables:
  "reconcile_tables g u schemas = (out, u') \<Longrightarrow> name \<notin> ts_name ` set schemas \<Longrightarrow>
     u_tables u' name = u_tables u name"
proof (induction schemas arbitrary: u)
  case Nil
  then show ?case by simp
next
  case (Cons schema schemas)
  obtain o1 u1 where s: "reconcile_table g u schema = (o1, u1)"
    by (cases "reconcile_table g u schema") auto
  have t1: "u_tables u1 name = u_tables u name"
    using reconcile_table_tables [OF s] Cons.prems(2) by simp
  show ?case
  proof (cases o1)
    case Returned
    with s Cons.prems have "reconcile_tables g u1 schemas = (out, u')" by simp
    from Cons.IH [OF this] Cons.prems(2) t1 show ?thesis by simp
  next
    case (Raised e)
    with s Cons.prems have "u' = u1" by simp
    with t1 show ?thesis by simp
  qed
qed

text \<open>
  C9. \<open>bulk_insert_data\<close> on a table name that is not a key of \<open>self.tables\<close> raises the
  \<open>ValueError\<close> of line 128 ("not initialized") and leaves everything as it is: nothing is
  written. A name stays unregistered through every call of \<open>create_or_update_table\<close> whose
  schemas do not declare it, whether the call returns or raises.
\<close>

theorem bulk_insert_unregistered_fails:
  assumes "u_tables u table_name = None"
  shows "bulk_insert_data u table_name data =
           (Raised (ValueError ''Table not initialized. Call create_or_update_table first.''), u)
     \<and> (\<forall>schemas out u'.
           table_name \<notin> ts_name ` set schemas \<and> create_or_update_table u schemas = (out, u') \<longrightarrow>
           bulk_insert_data u' table_name data =
             (Raised (ValueError ''Table not initialized. Call create_or_update_table first.''), u'))"
proof -
  have direct: "bulk_insert_data v table_name data =
      (Raised (ValueError ''Table not initialized. Call create_or_update_table first.''), v)"
    if "u_tables v table_name = None" for v
    using that by (simp add: bulk_insert_data_def)
  have "u_tables u' table_name = None"
    if "table_name \<notin> ts_name ` set schemas" "create_or_update_table u schemas = (out, u')"
    for schemas out u'
    using reconcile_tables_tables [of module_globals u schemas out u' table_name] that assms
    by (simp add: create_or_update_table_def)
  with direct assms show ?thesis by blast
qed

lemma complete_item_keys: "map fst (complete_item table_columns item) = table_columns"
  by (simp add: complete_item_def comp_def)

lemma complete_item_restrict:
  "complete_item table_columns (item |` set table_columns) = complete_item table_columns item"
  by (simp add: complete_item_def restrict_map_def)

lemma insert_items_restrict:
  "insert_items db name table_columns (map (\<lambda>item. item |` set table_columns) data)
     = insert_items db name table_columns data"
  by (induction data arbitrary: db) (simp_all add: complete_item_restrict split: sum.splits)

text \<open>
  C10. For a registered table, the mapping that is inserted for an item has exactly the
  table's declared columns as its keys, in their order; it is the mapping the item
  without its undeclared keys would give; and the whole call, its outcome and the
  database it leaves, is that of the call on the items without their undeclared keys:
  an undeclared key is neither inserted nor an error.
\<close>

theorem bulk_insert_drops_undeclared_keys:
  assumes "u_tables u table_name = Some tbl"
  shows "map fst (complete_item (map c_name tbl) item) = map c_name tbl
     \<and> complete_item (map c_name tbl) item
         = complete_item (map c_name tbl) (item |` set (map c_name tbl))
     \<and> bulk_insert_data u table_name data
         = bulk_insert_data u table_name (map (\<lambda>item. item |` set (map c_name tbl)) data)"
  using assms complete_item_restrict [of "map c_name tbl" item]
    insert_items_restrict [of "u_db u" table_name "map c_name tbl" data]
  by (simp add: complete_item_keys bulk_insert_data_def)


section \<open>The example updater, evaluated\<close>

lemma example_users_built:
  "build_columns (ts_columns example_schema_users) = Inr example_users_columns"
  by (simp add: example_schema_users_def integer_column_def build_column_def type_mapping_def
      example_users_columns_def)

lemma inspect_unbound: "''inspect'' \<notin> set module_globals"
  by (simp add: module_globals_def)

lemma example_users_name: "ts_name example_schema_users = ''users''"
  by (simp add: example_schema_users_def)

lemma example_users_made:
  "make_table Map.empty ''users'' example_users_columns = example_users_columns"
  by (simp add: make_table_def example_users_columns_def)

lemma example_users_created:
  "table_create Map.empty ''users'' example_users_columns = Inr [''users'' \<mapsto> example_users_table]"
  by (simp add: table_create_def example_users_columns_def example_users_table_def)

lemma example_users_registered:
  "create_or_update_table (fresh_updater Map.empty) [example_schema_users]
     = (Raised (NameError ''inspect''), example_updater)"
  by (simp add: create_or_update_table_def reconcile_table_def example_users_built
      example_users_name fresh_updater_def example_users_made example_users_created
      inspect_and_add_def inspect_unbound example_updater_def)

text \<open>
  The theorem on a new updater, and on the updater after \<open>users\<close> has been registered:
  \<open>orders\<close> is refused in both.
\<close>

theorem bulk_insert_unregistered_fails_witness:
  "u_tables (fresh_updater Map.empty) ''orders'' = None
   \<and> ''orders'' \<notin> ts_name ` set [example_schema_users]
   \<and> create_or_update_table (fresh_updater Map.empty) [example_schema_users]
        = (Raised (NameError ''inspect''), example_updater)
   \<and> bulk_insert_data (fresh_updater Map.empty) ''orders'' [example_item] =
        (Raised (ValueError ''Table not initialized. Call create_or_update_table first.''),
         fresh_updater Map.empty)
   \<and> bulk_insert_data example_updater ''orders'' [example_item] =
        (Raised (ValueError ''Table not initialized. Call create_or_update_table first.''),
         example_updater)"
proof -
  have n: "u_tables (fresh_updater Map.empty) ''orders'' = None"
    by (simp add: fresh_updater_def)
  have m: "''orders'' \<notin> ts_name ` set [example_schema_users]"
    by (simp add: example_schema_users_def)
  from bulk_insert_unregistered_fails [OF n, of "[example_item]"] m example_users_registered n
  show ?thesis by blast
qed

lemma example_updater_users: "u_tables example_updater ''users'' = Some example_users_columns"
  by (simp add: example_updater_def)

text \<open>The theorem on the example item, whose key \<open>nickname\<close> the table does not declare.\<close>

theorem bulk_insert_drops_undeclared_keys_witness:
  "u_tables example_updater ''users'' = Some example_users_columns
   \<and> example_item ''nickname'' = Some (Str ''x'')
   \<and> map fst (complete_item (map c_name example_users_columns) example_item) = [''id'', ''age'']
   \<and> bulk_insert_data example_updater ''users'' [example_item]
       = bulk_insert_data example_updater ''users''
           (map (\<lambda>item. item |` set (map c_name example_users_columns)) [example_item])"
proof -
  have c: "map c_name example_users_columns = [''id'', ''age'']"
    by (simp add: example_users_columns_def)
  have k: "example_item ''nickname'' = Some (Str ''x'')"
    by (simp add: example_item_def)
  note inst = bulk_insert_drops_undeclared_keys [OF example_updater_users, of example_item "[example_item]"]
  from inst have a: "map fst (complete_item (map c_name example_users_columns) example_item)
      = map c_name example_users_columns" by blast
  from inst have b: "bulk_insert_data example_updater ''users'' [example_item]
       = bulk_insert_data example_updater ''users''
           (map (\<lambda>item. item |` set (map c_name example_users_columns)) [example_item])"
    by blast
  from a c have a': "map fst (complete_item (map c_name example_users_columns) example_item)
      = [''id'', ''age'']" by (rule trans)
  from example_updater_users k a' b show ?thesis by blast
qed

section \<open>Inserting the same row twice\<close>












section \<open>The reconciler under the names the module binds\<close>

lemma exc_unbound: "''exc'' \<notin> set module_globals"
  by (simp add: module_globals_def)

lemma DDL_unbound: "''DDL'' \<notin> set module_globals"
  by (simp add: module_globals_def)

lemma inspect_and_add_unbound:
  "inspect_and_add module_globals u name columns = (Raised (NameError ''inspect''), u)"
  by (simp add: inspect_and_add_def inspect_unbound)

lemma except_clause_unbound:
  "except_exc_SQLAlchemyError module_globals e = Some (NameError ''exc'')"
  by (simp add: except_exc_SQLAlchemyError_def exc_unbound)

text \<open>Under the names the module binds, no pass of the loop over the schemas returns.\<close>

lemma reconcile_table_raises:
  "\<exists>e. fst (reconcile_table module_globals u schema) = Raised e"
  by (simp add: reconcile_table_def inspect_and_add_unbound except_clause_unbound
      split: sum.split)

lemma create_or_update_table_raises:
  "schemas \<noteq> [] \<Longrightarrow> \<exists>e. fst (create_or_update_table u schemas) = Raised e"
proof -
  assume "schemas \<noteq> []"
  then obtain schema rest where s: "schemas = schema # rest" by (cases schemas) auto
  from reconcile_table_raises [of u schema] obtain e u'
    where "reconcile_table module_globals u schema = (Raised e, u')"
    by (cases "reconcile_table module_globals u schema") auto
  with s show ?thesis by (simp add: create_or_update_table_def)
qed

text \<open>A table that exists keeps its columns, its key and its rows.\<close>

lemma table_create_keeps:
  "table_create db name cols = Inr db' \<Longrightarrow> db n = Some t \<Longrightarrow> db' n = Some t"
  by (auto simp: table_create_def split: option.splits if_splits)

lemma reconcile_table_keeps:
  assumes "reconcile_table module_globals u schema = (out, u')" "u_db u n = Some t"
  shows "u_db u' n = Some t"
proof (cases "build_columns (ts_columns schema)")
  case (Inl e)
  with assms show ?thesis by (simp add: reconcile_table_def)
next
  case (Inr columns)
  show ?thesis
  proof (cases "table_create (u_db u) (ts_name schema)
                  (make_table (u_tables u) (ts_name schema) columns)")
    case (Inl e)
    with Inr assms show ?thesis
      by (auto simp: reconcile_table_def except_clause_unbound)
  next
    case c: (Inr db')
    from table_create_keeps [OF c assms(2)] Inr c assms(1) show ?thesis
      by (auto simp: reconcile_table_def inspect_and_add_unbound)
  qed
qed

lemma create_or_update_table_keeps:
  assumes "create_or_update_table u schemas = (out, u')" "u_db u n = Some t"
  shows "u_db u' n = Some t"
proof (cases schemas)
  case Nil
  with assms show ?thesis by (simp add: create_or_update_table_def)
next
  case (Cons schema rest)
  from reconcile_table_raises [of u schema] obtain e u1
    where r: "reconcile_table module_globals u schema = (Raised e, u1)"
    by (cases "reconcile_table module_globals u schema") auto
  with Cons assms(1) have "u' = u1" by (simp add: create_or_update_table_def)
  with reconcile_table_keeps [OF r assms(2)] show ?thesis by simp
qed

section \<open>The reconciler on the example schemas\<close>

lemma integer_column_built:
  "build_column (integer_column name pk) =
     Inr \<lparr>c_name = name, c_type = ''Integer'', c_timezone = False, c_primary_key = pk,
          c_foreign_key = None\<rparr>"
  by (simp add: build_column_def integer_column_def type_mapping_def)

lemma example_abc_raises:
  "create_or_update_table (fresh_updater [''t'' \<mapsto> example_table_ab]) [example_schema_abc] =
     (Raised (NameError ''inspect''),
      \<lparr>u_tables = [''t'' \<mapsto>
          [\<lparr>c_name = ''a'', c_type = ''Integer'', c_timezone = False, c_primary_key = True,
            c_foreign_key = None\<rparr>,
           \<lparr>c_name = ''b'', c_type = ''Integer'', c_timezone = False, c_primary_key = False,
            c_foreign_key = None\<rparr>,
           \<lparr>c_name = ''c'', c_type = ''Integer'', c_timezone = False, c_primary_key = False,
            c_foreign_key = None\<rparr>]],
       u_db = [''t'' \<mapsto> example_table_ab],
       u_trace = [Begin, Commit, PrintTransCommit]\<rparr>)"
  by (simp add: create_or_update_table_def reconcile_table_def example_schema_abc_def
      integer_column_built fresh_updater_def make_table_def table_create_def
      inspect_and_add_unbound)


section \<open>The reconciler is additive under any set of bound names\<close>

text \<open>
  Whatever names are bound, and whether the call returns or raises, a table that exists
  before the loop over the schemas exists after it and is extended: the loop creates
  tables and appends columns, and does nothing else to the database.
\<close>

lemma table_extends_refl: "table_extends t t"
  by (simp add: table_extends_def)

lemma table_extends_trans:
  "table_extends t t' \<Longrightarrow> table_extends t' t'' \<Longrightarrow> table_extends t t''"
proof -
  assume a: "table_extends t t'" and b: "table_extends t' t''"
  from a have l: "length (t_columns t) \<le> length (t_columns t')"
    by (metis length_take min.cobounded1 table_extends_def)
  have "take (length (t_columns t)) (t_columns t'')
        = take (length (t_columns t)) (take (length (t_columns t')) (t_columns t''))"
    using l by (simp add: min_def)
  with a b show ?thesis by (simp add: table_extends_def)
qed

lemma alter_add_column_extends:
  assumes "alter_add_column db name column = Inr db'" "db n = Some t"
  shows "\<exists>t'. db' n = Some t' \<and> table_extends t t'"
  using assms
  by (auto simp: alter_add_column_def table_extends_def split: option.splits if_splits)

lemma table_create_extends:
  assumes "table_create db name cols = Inr db'" "db n = Some t"
  shows "\<exists>t'. db' n = Some t' \<and> table_extends t t'"
  using table_create_keeps [OF assms] table_extends_refl by blast

lemma add_missing_columns_extends:
  "add_missing_columns g u name existing columns = (out, u') \<Longrightarrow> u_db u n = Some t \<Longrightarrow>
     \<exists>t'. u_db u' n = Some t' \<and> table_extends t t'"
proof (induction columns arbitrary: u t)
  case Nil
  then show ?case using table_extends_refl by auto
next
  case (Cons column columns)
  show ?case
  proof (cases "c_name column \<in> set existing")
    case True
    with Cons.prems
      Cons.IH [of "u\<lparr>u_trace := u_trace u @ [PrintColumnAlreadyExists (c_name column)]\<rparr>" t]
    show ?thesis by simp
  next
    case False
    show ?thesis
    proof (cases "''DDL'' \<in> set g")
      case no: False
      with False Cons.prems table_extends_refl show ?thesis by auto
    next
      case yes: True
      show ?thesis
      proof (cases "alter_add_column (u_db u) name (c_name column)")
        case (Inr db')
        from alter_add_column_extends [OF Inr Cons.prems(2)]
        obtain t1 where t1: "db' n = Some t1" "table_extends t t1" by blast
        from False yes Inr Cons.prems(1)
        have "add_missing_columns g
               (u\<lparr>u_db := db',
                  u_trace := u_trace u @ [PrintAddingColumn (c_name column), Begin, Commit]\<rparr>)
               name existing columns = (out, u')" by simp
        from Cons.IH [OF this, of t1] t1 table_extends_trans [of t t1] show ?thesis by auto
      next
        case (Inl e)
        show ?thesis
        proof (cases "except_exc_SQLAlchemyError g e")
          case None
          with False yes Inl Cons.prems
            Cons.IH [of "u\<lparr>u_trace := u_trace u @ [PrintAddingColumn (c_name column), Begin,
                                                PrintErrorAlteringTable e, Rollback]\<rparr>" t]
          show ?thesis by simp
        next
          case (Some e')
          with False yes Inl Cons.prems table_extends_refl show ?thesis by auto
        qed
      qed
    qed
  qed
qed

lemma inspect_and_add_extends:
  assumes "inspect_and_add g u name columns = (out, u')" "u_db u n = Some t"
  shows "\<exists>t'. u_db u' n = Some t' \<and> table_extends t t'"
proof (cases "''inspect'' \<in> set g")
  case False
  with assms table_extends_refl show ?thesis by (auto simp: inspect_and_add_def)
next
  case True
  show ?thesis
  proof (cases "u_db u name")
    case None
    with True assms table_extends_refl show ?thesis by (auto simp: inspect_and_add_def)
  next
    case (Some t0)
    with True assms(1)
    have "add_missing_columns g
            (u\<lparr>u_trace := u_trace u @ [PrintExistingColumns name (t_columns t0)]\<rparr>)
            name (t_columns t0) columns = (out, u')"
      by (simp add: inspect_and_add_def)
    from add_missing_columns_extends [OF this, of n t] assms(2) show ?thesis by simp
  qed
qed

lemma reconcile_table_extends:
  assumes "reconcile_table g u schema = (out, u')" "u_db u n = Some t"
  shows "\<exists>t'. u_db u' n = Some t' \<and> table_extends t t'"
proof (cases "build_columns (ts_columns schema)")
  case (Inl e)
  with assms table_extends_refl show ?thesis by (auto simp: reconcile_table_def)
next
  case (Inr columns)
  let ?tbl = "make_table (u_tables u) (ts_name schema) columns"
  show ?thesis
  proof (cases "table_create (u_db u) (ts_name schema) ?tbl")
    case c: (Inr db')
    from table_create_keeps [OF c assms(2)] have k: "db' n = Some t" .
    from Inr c assms(1)
    have "inspect_and_add g
            (u\<lparr>u_tables := (u_tables u)(ts_name schema \<mapsto> ?tbl), u_db := db',
               u_trace := u_trace u @ [Begin, Commit, PrintTransCommit]\<rparr>)
            (ts_name schema) columns = (out, u')"
      by (simp add: reconcile_table_def)
    from inspect_and_add_extends [OF this, of n t] k show ?thesis by simp
  next
    case c: (Inl e)
    show ?thesis
    proof (cases "except_exc_SQLAlchemyError g e")
      case (Some e')
      with Inr c assms table_extends_refl show ?thesis by (auto simp: reconcile_table_def)
    next
      case None
      with Inr c assms(1)
      have "inspect_and_add g
              (u\<lparr>u_tables := (u_tables u)(ts_name schema \<mapsto> ?tbl),
                 u_trace := u_trace u @ [Begin, PrintErrorCreatingTable e, Rollback]\<rparr>)
              (ts_name schema) columns = (out, u')"
        by (simp add: reconcile_table_def)
      from inspect_and_add_extends [OF this, of n t] assms(2) show ?thesis by simp
    qed
  qed
qed

lemma reconcile_tables_extends:
  "reconcile_tables g u schemas = (out, u') \<Longrightarrow> u_db u n = Some t \<Longrightarrow>
     \<exists>t'. u_db u' n = Some t' \<and> table_extends t t'"
proof (induction schemas arbitrary: u t)
  case Nil
  then show ?case using table_extends_refl by auto
next
  case (Cons schema schemas)
  obtain o1 u1 where s: "reconcile_table g u schema = (o1, u1)"
    by (cases "reconcile_table g u schema") auto
  from reconcile_table_extends [OF s Cons.prems(2)]
  obtain t1 where t1: "u_db u1 n = Some t1" "table_extends t t1" by blast
  show ?case
  proof (cases o1)
    case Returned
    with s Cons.prems(1) have "reconcile_tables g u1 schemas = (out, u')" by simp
    from Cons.IH [OF this t1(1)] t1(2) table_extends_trans [of t t1] show ?thesis by auto
  next
    case (Raised e)
    with s Cons.prems(1) have "u' = u1" by simp
    with t1 show ?thesis by auto
  qed
qed

lemma example_abc_state_rerun:
  "create_or_update_table
      \<lparr>u_tables = [''t'' \<mapsto>
          [\<lparr>c_name = ''a'', c_type = ''Integer'', c_timezone = False, c_primary_key = True,
            c_foreign_key = None\<rparr>,
           \<lparr>c_name = ''b'', c_type = ''Integer'', c_timezone = False, c_primary_key = False,
            c_foreign_key = None\<rparr>,
           \<lparr>c_name = ''c'', c_type = ''Integer'', c_timezone = False, c_primary_key = False,
            c_foreign_key = None\<rparr>]],
       u_db = [''t'' \<mapsto> example_table_ab],
       u_trace = [Begin, Commit, PrintTransCommit]\<rparr> [example_schema_abc]
   = (Raised (NameError ''inspect''),
      \<lparr>u_tables = [''t'' \<mapsto>
          [\<lparr>c_name = ''a'', c_type = ''Integer'', c_timezone = False, c_primary_key = True,
            c_foreign_key = None\<rparr>,
           \<lparr>c_name = ''b'', c_type = ''Integer'', c_timezone = False, c_primary_key = False,
            c_foreign_key = None\<rparr>,
           \<lparr>c_name = ''c'', c_type = ''Integer'', c_timezone = False, c_primary_key = False,
            c_foreign_key = None\<rparr>]],
       u_db = [''t'' \<mapsto> example_table_ab],
       u_trace = [Begin, Commit, PrintTransCommit, Begin, Commit, PrintTransCommit]\<rparr>)"
  by (simp add: create_or_update_table_def reconcile_table_def example_schema_abc_def
      integer_column_built make_table_def table_create_def inspect_and_add_unbound)


text \<open>
  With \<open>inspect\<close>, \<open>DDL\<close> and \<open>exc\<close> bound, the same loop on the same input returns and the
  table has the columns \<open>a\<close>, \<open>b\<close>, \<open>c\<close>: the missing imports are all that is in the way.
\<close>

lemma globals_bound:
  "''inspect'' \<in> set globals_with_missing_imports"
  "''DDL'' \<in> set globals_with_missing_imports"
  "''exc'' \<in> set globals_with_missing_imports"
  by (simp_all add: globals_with_missing_imports_def)

lemma reconcile_adds_column_when_names_bound:
  "(case reconcile_tables globals_with_missing_imports
           (fresh_updater [''t'' \<mapsto> example_table_ab]) [example_schema_abc] of
      (out, u) \<Rightarrow>
        out = Returned
        \<and> u_db u ''t'' = Some \<lparr>t_columns = [''a'', ''b'', ''c''], t_pkey = [''a''],
                               t_rows = [[Num 1, Num 2, Null]]\<rparr>
        \<and> u_trace u = [Begin, Commit, PrintTransCommit,
                        PrintExistingColumns ''t'' [''a'', ''b''],
                        PrintColumnAlreadyExists ''a'', PrintColumnAlreadyExists ''b'',
                        PrintAddingColumn ''c'', Begin, Commit])"
  by (simp add: reconcile_table_def example_schema_abc_def integer_column_built
      fresh_updater_def make_table_def table_create_def inspect_and_add_def
      globals_bound alter_add_column_def example_table_ab_def)


text \<open>
  C3 on the code. The table \<open>t\<close> exists with the columns \<open>a\<close>, \<open>b\<close> and the schema declares
  \<open>a\<close>, \<open>b\<close>, \<open>c\<close>. \<open>create_or_update_table\<close> finds the table (\<open>checkfirst\<close>), commits, and
  at line 98 calls \<open>inspect\<close>, which the module does not import: the call raises
  \<open>NameError\<close> before the loop over the columns. The table is as it was, with the columns
  \<open>a\<close>, \<open>b\<close> and not \<open>c\<close>; and running the reconciliation again raises again.
\<close>

theorem reconcile_existing_table_raises:
  "fst (create_or_update_table (fresh_updater [''t'' \<mapsto> example_table_ab])
          [example_schema_abc]) = Raised (NameError ''inspect'')
   \<and> u_db (snd (create_or_update_table (fresh_updater [''t'' \<mapsto> example_table_ab])
                  [example_schema_abc])) ''t'' = Some example_table_ab
   \<and> t_columns example_table_ab = [''a'', ''b'']
   \<and> map cs_name (ts_columns example_schema_abc) = [''a'', ''b'', ''c'']
   \<and> fst (create_or_update_table
            (snd (create_or_update_table (fresh_updater [''t'' \<mapsto> example_table_ab])
                    [example_schema_abc]))
            [example_schema_abc]) = Raised (NameError ''inspect'')"
proof -
  have a: "t_columns example_table_ab = [''a'', ''b'']"
    by (simp add: example_table_ab_def)
  have b: "map cs_name (ts_columns example_schema_abc) = [''a'', ''b'', ''c'']"
    by (simp add: example_schema_abc_def integer_column_def)
  have c: "fst (create_or_update_table (fresh_updater [''t'' \<mapsto> example_table_ab])
          [example_schema_abc]) = Raised (NameError ''inspect'')"
    by (simp add: example_abc_raises)
  have d: "u_db (snd (create_or_update_table (fresh_updater [''t'' \<mapsto> example_table_ab])
                  [example_schema_abc])) ''t'' = Some example_table_ab"
    by (simp add: example_abc_raises)
  have e: "fst (create_or_update_table
            (snd (create_or_update_table (fresh_updater [''t'' \<mapsto> example_table_ab])
                    [example_schema_abc]))
            [example_schema_abc]) = Raised (NameError ''inspect'')"
    by (simp add: example_abc_raises example_abc_state_rerun)
  from a b c d e show ?thesis by (simp only: simp_thms)
qed

lemma example_users_orders:
  "create_or_update_table (fresh_updater Map.empty) [example_schema_users, example_schema_orders]
     = (Raised (NameError ''inspect''), example_updater)"
  by (simp add: create_or_update_table_def reconcile_table_def example_users_built
      example_users_name fresh_updater_def example_users_made example_users_created
      inspect_and_add_unbound example_updater_def)

lemma user_id_column_built:
  "build_column \<lparr>cs_name = ''user_id'', cs_type = ''Integer'', cs_primary_key = False,
                  cs_foreign_key = Some ''users.id'', cs_timezone = False\<rparr> =
     Inr \<lparr>c_name = ''user_id'', c_type = ''Integer'', c_timezone = False,
          c_primary_key = False, c_foreign_key = Some ''users.id''\<rparr>"
  by (simp add: build_column_def type_mapping_def)

lemma example_payments_built:
  "build_columns (ts_columns example_schema_payments) =
     Inr [\<lparr>c_name = ''id'', c_type = ''Integer'', c_timezone = False, c_primary_key = True,
           c_foreign_key = None\<rparr>,
          \<lparr>c_name = ''user_id'', c_type = ''Integer'', c_timezone = False,
           c_primary_key = False, c_foreign_key = Some ''users.id''\<rparr>]"
  by (simp add: example_schema_payments_def integer_column_built user_id_column_built)


lemma example_payments_name: "ts_name example_schema_payments = ''payments''"
  by (simp add: example_schema_payments_def)

lemma users_id_unresolved: "\<not> fk_resolves Map.empty ''users.id''"
  by (simp add: fk_resolves_def)

lemma example_payments_not_created:
  "table_create Map.empty ''payments''
     [\<lparr>c_name = ''id'', c_type = ''Integer'', c_timezone = False, c_primary_key = True,
       c_foreign_key = None\<rparr>,
      \<lparr>c_name = ''user_id'', c_type = ''Integer'', c_timezone = False,
       c_primary_key = False, c_foreign_key = Some ''users.id''\<rparr>]
   = Inl (SQLAlchemyError ''referenced table or column does not exist'')"
  by (simp add: table_create_def users_id_unresolved)

lemma example_payments_made:
  "make_table Map.empty ''payments''
     [\<lparr>c_name = ''id'', c_type = ''Integer'', c_timezone = False, c_primary_key = True,
       c_foreign_key = None\<rparr>,
      \<lparr>c_name = ''user_id'', c_type = ''Integer'', c_timezone = False,
       c_primary_key = False, c_foreign_key = Some ''users.id''\<rparr>]
   = [\<lparr>c_name = ''id'', c_type = ''Integer'', c_timezone = False, c_primary_key = True,
       c_foreign_key = None\<rparr>,
      \<lparr>c_name = ''user_id'', c_type = ''Integer'', c_timezone = False,
       c_primary_key = False, c_foreign_key = Some ''users.id''\<rparr>]"
  by (simp add: make_table_def)

lemma example_payments_first:
  "create_or_update_table (fresh_updater Map.empty) [example_schema_payments, example_schema_users]
     = (Raised (NameError ''exc''),
        \<lparr>u_tables = [''payments'' \<mapsto>
            [\<lparr>c_name = ''id'', c_type = ''Integer'', c_timezone = False, c_primary_key = True,
              c_foreign_key = None\<rparr>,
             \<lparr>c_name = ''user_id'', c_type = ''Integer'', c_timezone = False,
              c_primary_key = False, c_foreign_key = Some ''users.id''\<rparr>]],
         u_db = Map.empty, u_trace = [Begin]\<rparr>)"
  by (simp add: create_or_update_table_def reconcile_table_def example_payments_built
      example_payments_name fresh_updater_def example_payments_made
      example_payments_not_created except_clause_unbound)

text \<open>
  C7 on the code. With two schemas of tables that do not exist, the first table is
  created and committed, then \<open>inspect\<close> raises \<open>NameError\<close>: the call ends there, the second
  table is neither created nor registered. With a first schema whose creation fails (a
  foreign key to a table that is not there), \<open>except exc.SQLAlchemyError\<close> raises
  \<open>NameError\<close> for \<open>exc\<close>: the transaction has begun and sees neither the \<open>rollback\<close> call nor
  the error message of lines 93-94, and the loop does not go on to the next schema.
\<close>

theorem reconcile_stops_at_first_table:
  "create_or_update_table (fresh_updater Map.empty) [example_schema_users, example_schema_orders]
     = (Raised (NameError ''inspect''), example_updater)
   \<and> u_db example_updater ''users'' = Some example_users_table
   \<and> u_db example_updater ''orders'' = None
   \<and> u_tables example_updater ''orders'' = None
   \<and> u_trace example_updater = [Begin, Commit, PrintTransCommit]
   \<and> fst (create_or_update_table (fresh_updater Map.empty)
            [example_schema_payments, example_schema_users]) = Raised (NameError ''exc'')
   \<and> u_trace (snd (create_or_update_table (fresh_updater Map.empty)
            [example_schema_payments, example_schema_users])) = [Begin]
   \<and> u_db (snd (create_or_update_table (fresh_updater Map.empty)
            [example_schema_payments, example_schema_users])) ''users'' = None"
proof -
  have a: "u_db example_updater ''users'' = Some example_users_table"
    "u_db example_updater ''orders'' = None" "u_tables example_updater ''orders'' = None"
    "u_trace example_updater = [Begin, Commit, PrintTransCommit]"
    by (simp_all add: example_updater_def)
  have b: "fst (create_or_update_table (fresh_updater Map.empty)
            [example_schema_payments, example_schema_users]) = Raised (NameError ''exc'')"
    "u_trace (snd (create_or_update_table (fresh_updater Map.empty)
            [example_schema_payments, example_schema_users])) = [Begin]"
    "u_db (snd (create_or_update_table (fresh_updater Map.empty)
            [example_schema_payments, example_schema_users])) ''users'' = None"
    by (simp_all add: example_payments_first)
  from example_users_orders a b show ?thesis by (simp only: simp_thms)
qed

section \<open>Two edges of the model\<close>

text \<open>
  A raw row whose \<open>id\<close> is \<open>NULL\<close> carries no identity key. SQL's \<open>=\<close> never matches it,
  so the query returns it whatever the processed table holds.
\<close>

lemma null_id_row_is_selected:
  assumes "db raw = Some R" "db proc = Some P"
    and "''id'' \<in> set (t_columns R)" "''id'' \<in> set (t_columns P)"
    and "length (t_rows R) \<le> nat limit" "0 \<le> limit"
    and "r \<in> set (t_rows R)" "field (t_columns R) r ''id'' = Null"
  shows "r \<in> set (df_rows (fst (download_table_to_df db raw proc limit)))"
proof -
  let ?keep = "\<lambda>r1. \<not> list_ex (\<lambda>r2. sql_eq (field (t_columns R) r1 ''id'')
                                          (field (t_columns P) r2 ''id'')) (t_rows P)"
  have "length (filter ?keep (t_rows R)) \<le> nat limit"
    using assms(5) length_filter_le [of ?keep "t_rows R"] by linarith
  then have "take (nat limit) (filter ?keep (t_rows R)) = filter ?keep (t_rows R)"
    by simp
  moreover have "r \<in> set (filter ?keep (t_rows R))"
    using assms(7,8) by (simp add: sql_eq_def list_ex_iff)
  ultimately show ?thesis
    using assms(1-4,6) by (simp add: download_table_to_df_def select_unprocessed_def)
qed

text \<open>
  With \<open>inspect\<close>, \<open>DDL\<close> and \<open>exc\<close> bound, a creation that fails is rolled back and
  printed; the table is then not there, and \<open>get_columns\<close> at line 99, outside any
  \<open>try\<close>, raises \<open>NoSuchTableError\<close> (imported at line 9 and caught nowhere).
\<close>

lemma reconcile_failed_create_when_names_bound:
  "reconcile_tables globals_with_missing_imports (fresh_updater Map.empty)
       [example_schema_payments, example_schema_users]
     = (Raised (SQLAlchemyError ''NoSuchTableError''),
        \<lparr>u_tables = [''payments'' \<mapsto>
            [\<lparr>c_name = ''id'', c_type = ''Integer'', c_timezone = False, c_primary_key = True,
              c_foreign_key = None\<rparr>,
             \<lparr>c_name = ''user_id'', c_type = ''Integer'', c_timezone = False,
              c_primary_key = False, c_foreign_key = Some ''users.id''\<rparr>]],
         u_db = Map.empty,
         u_trace = [Begin,
                    PrintErrorCreatingTable
                      (SQLAlchemyError ''referenced table or column does not exist''),
                    Rollback]\<rparr>)"
  by (simp add: reconcile_table_def example_payments_built example_payments_name
      fresh_updater_def example_payments_made example_payments_not_created
      except_exc_SQLAlchemyError_def globals_bound inspect_and_add_def)

end
